theory Spec2Isabelle
  imports Main
begin

section \<open>Constants of the on-disk layout\<close>

text \<open>
  \<^verbatim>\<open>disk.h\<close> is not among the sources. The comments of \<^verbatim>\<open>filehdr.h\<close>
  (``128 * 31 Byte'', ``128 *(28+31) Bytes'') fix the sector size at 128 bytes; an
  \<^verbatim>\<open>int\<close> has 4 bytes, so a sector holds 32 of them.
\<close>

definition SectorSize :: nat where
  "SectorSize = 128"

text \<open>\<^verbatim>\<open>#define NumDirect ((SectorSize - 4 * sizeof(int)) / sizeof(int))\<close>\<close>

definition NumDirect :: nat where
  "NumDirect = (SectorSize - 4 * 4) div 4"

text \<open>\<^verbatim>\<open>#define NumIndirect ((SectorSize - 1 * sizeof(int)) / sizeof(int))\<close>\<close>

definition NumIndirect :: nat where
  "NumIndirect = (SectorSize - 1 * 4) div 4"

text \<open>
  \<^verbatim>\<open>#define divRoundUp(n,s) (((n) / (s)) + ((((n) % (s)) > 0) ? 1 : 0))\<close>.
  Its operands are C \<^verbatim>\<open>int\<close>s, a file size and \<^verbatim>\<open>SectorSize\<close>: \<^verbatim>\<open>/\<close> truncates
  toward zero and \<^verbatim>\<open>%\<close> has the sign of the dividend. The divisor is positive.
\<close>

definition cquot :: "int \<Rightarrow> int \<Rightarrow> int" where
  "cquot n s = (if n < 0 then - ((- n) div s) else n div s)"

definition crem :: "int \<Rightarrow> int \<Rightarrow> int" where
  "crem n s = n - s * cquot n s"

definition divRoundUp :: "int \<Rightarrow> int \<Rightarrow> int" where
  "divRoundUp n s = cquot n s + (if crem n s > 0 then 1 else 0)"

text \<open>
  An \<^verbatim>\<open>int\<close> compared with a \<^verbatim>\<open>size_t\<close> is converted to it first: a negative
  number is read as itself plus \<open>2 ^ 32\<close> (on a wider \<^verbatim>\<open>size_t\<close> as a number larger
  still).
\<close>

definition asUnsigned :: "int \<Rightarrow> int" where
  "asUnsigned n = (if n < 0 then n + 2 ^ 32 else n)"

text \<open>\<^verbatim>\<open>#define FreeMapSector 0\<close> and \<^verbatim>\<open>#define DirectorySector 1\<close>\<close>

definition FreeMapSector :: int where
  "FreeMapSector = 0"

definition DirectorySector :: int where
  "DirectorySector = 1"

section \<open>Fatal outcomes\<close>

text \<open>
  A failed \<^verbatim>\<open>ASSERT\<close> aborts the process. A sector number outside the disk makes the
  block device abort. Reading an array outside its bounds and dereferencing a null
  pointer are undefined in the source; the model stops there with a fault of its own.
\<close>

datatype fault = AssertionFailure | BadSector | OutOfBounds | NullPointer

section \<open>The sector bitmap\<close>

text \<open>
  Modelled from the spec: the sources of \<^verbatim>\<open>Bitmap\<close> and \<^verbatim>\<open>PersistentBitmap\<close>
  (\<^verbatim>\<open>bitmap.cc\<close>, \<^verbatim>\<open>pbitmap.cc\<close>) are missing. One bit per sector, set when the
  sector is allocated. \<^verbatim>\<open>findAndSet\<close> sets the lowest clear bit and returns its index,
  or \<open>-1\<close> when every bit is set; \<^verbatim>\<open>clear\<close> is fatal on a bit that is already clear;
  \<^verbatim>\<open>countClear\<close> counts the clear bits.
\<close>

type_synonym Bitmap = "bool list"

definition NumClear :: "Bitmap \<Rightarrow> nat" where
  "NumClear freeMap = length (filter Not freeMap)"

fun lowestClear :: "Bitmap \<Rightarrow> nat option" where
  "lowestClear [] = None"
| "lowestClear (b # bs) = (if b then map_option Suc (lowestClear bs) else Some 0)"

definition FindAndSet :: "Bitmap \<Rightarrow> int \<times> Bitmap" where
  "FindAndSet freeMap =
     (case lowestClear freeMap of
        None \<Rightarrow> (-1, freeMap)
      | Some i \<Rightarrow> (int i, freeMap[i := True]))"

definition Test :: "Bitmap \<Rightarrow> int \<Rightarrow> bool" where
  "Test freeMap which = (0 \<le> which \<and> nat which < length freeMap \<and> freeMap ! nat which)"

definition Clear :: "Bitmap \<Rightarrow> int \<Rightarrow> fault + Bitmap" where
  "Clear freeMap which =
     (if Test freeMap which then Inr (freeMap[nat which := False]) else Inl AssertionFailure)"

section \<open>The disk\<close>

text \<open>
  Modelled from the spec: the block device (\<^verbatim>\<open>synchdisk.cc\<close>) and the open-file
  abstraction (\<^verbatim>\<open>openfile.cc\<close>) are missing. A sector is the 32 integers it
  holds; sectors are addressed by \<open>0..N-1\<close> and the device aborts on any other number.
  The spec treats the bitmap and every directory as a file that is persisted and restored
  as a whole: the disk keeps the contents of the bitmap file and, by the sector of its
  header, of each directory file, apart from the raw sectors. The journal records the
  order of the writes.
\<close>

datatype entry_kind = IS_FILE | IS_DIR

record DirectoryEntry =
  e_inUse :: bool
  e_name :: string
  e_sector :: int
  e_kind :: entry_kind

type_synonym Directory = "DirectoryEntry list"

datatype event = WroteSector int | WroteDirectory int | WroteBitmap

record Disk =
  diskSize :: nat
  sectors :: "int \<Rightarrow> int list"
  dirFiles :: "int \<Rightarrow> Directory"
  mapFile :: Bitmap
  journal :: "event list"

definition ReadSector :: "Disk \<Rightarrow> int \<Rightarrow> fault + int list" where
  "ReadSector d sectorNumber =
     (if 0 \<le> sectorNumber \<and> sectorNumber < int (diskSize d)
      then Inr (sectors d sectorNumber) else Inl BadSector)"

definition WriteSector :: "Disk \<Rightarrow> int \<Rightarrow> int list \<Rightarrow> fault + Disk" where
  "WriteSector d sectorNumber data =
     (if 0 \<le> sectorNumber \<and> sectorNumber < int (diskSize d)
      then Inr (d\<lparr>sectors := (sectors d)(sectorNumber := data),
                  journal := journal d @ [WroteSector sectorNumber]\<rparr>)
      else Inl BadSector)"

section \<open>The file header and its indirect blocks\<close>

text \<open>
  The three classes of \<^verbatim>\<open>filehdr.h\<close>. Both indirect classes name their counter
  \<^verbatim>\<open>numsSector\<close>, and the header and the single-indirect block both have an array
  \<^verbatim>\<open>dataSectors\<close>; the fields of the indirect blocks carry a prefix here.
\<close>

record FileHeader =
  numBytes :: int
  numSectors :: int
  dataSectors :: "int list"
  SingleIndirectSector :: int
  DoubleIndirectSector :: int

record SingleIndirectPointer =
  s_numsSector :: int
  s_dataSectors :: "int list"

record DoubleIndirectPointer =
  d_numsSector :: int
  d_pointers :: "int list"

text \<open>
  \<^verbatim>\<open>WriteSector(sector, (char *)object)\<close> and \<^verbatim>\<open>ReadSector(sector, (char *)object)\<close>
  copy the object's integers in the order of its fields.
\<close>

definition headerImage :: "FileHeader \<Rightarrow> int list" where
  "headerImage hdr =
     [numBytes hdr, numSectors hdr] @ dataSectors hdr
       @ [SingleIndirectSector hdr, DoubleIndirectSector hdr]"

definition headerOfImage :: "int list \<Rightarrow> FileHeader" where
  "headerOfImage xs =
     \<lparr>numBytes = xs ! 0, numSectors = xs ! 1,
      dataSectors = take NumDirect (drop 2 xs),
      SingleIndirectSector = xs ! (NumDirect + 2),
      DoubleIndirectSector = xs ! (NumDirect + 3)\<rparr>"

definition singleImage :: "SingleIndirectPointer \<Rightarrow> int list" where
  "singleImage single = s_numsSector single # s_dataSectors single"

definition singleOfImage :: "int list \<Rightarrow> SingleIndirectPointer" where
  "singleOfImage xs = \<lparr>s_numsSector = hd xs, s_dataSectors = tl xs\<rparr>"

definition doubleImage :: "DoubleIndirectPointer \<Rightarrow> int list" where
  "doubleImage dbl = d_numsSector dbl # d_pointers dbl"

definition doubleOfImage :: "int list \<Rightarrow> DoubleIndirectPointer" where
  "doubleOfImage xs = \<lparr>d_numsSector = hd xs, d_pointers = tl xs\<rparr>"

text \<open>
  \<^verbatim>\<open>new SingleIndirectPointer\<close> and \<^verbatim>\<open>new DoubleIndirectPointer\<close> initialise
  nothing. The contents of fresh memory are a parameter: \<open>heap k i\<close> is the integer in
  cell \<open>i\<close> of the array of the \<open>k\<close>-th object a call obtains.
\<close>

definition freshArray :: "(nat \<Rightarrow> int) \<Rightarrow> int list" where
  "freshArray cells = map cells [0..<NumIndirect]"

subsection \<open>Allocate\<close>

text \<open>
  The three claiming loops (lines 55--61, 88--96 and 118--126) have one shape:
  \<^verbatim>\<open>for (i = 0; i < capacity && i + covered < numSectors; i++)
    { arr[i] = freeMap->FindAndSet(); ASSERT(arr[i] >= 0); }\<close>
  with \<^verbatim>\<open>NumDirect\<close> and 0, \<^verbatim>\<open>NumIndirect\<close> and \<^verbatim>\<open>NumDirect\<close>, and
  \<^verbatim>\<open>NumIndirect\<close> and \<^verbatim>\<open>sector_counter\<close> for the capacity and the sectors covered
  elsewhere. The counters start at 0 and only grow: they are natural numbers.
  \<^verbatim>\<open>numSectors\<close> is an \<^verbatim>\<open>int\<close> and negative for a \<^verbatim>\<open>fileSize\<close> of -128 or
  less. The first and the third loop compare \<^verbatim>\<open>int\<close>s; the second compares
  \<^verbatim>\<open>numsSector + NumDirect\<close>, a \<^verbatim>\<open>size_t\<close>, with \<^verbatim>\<open>numSectors\<close>, which is
  converted.
\<close>

function claimSectors ::
  "nat \<Rightarrow> nat \<Rightarrow> nat \<Rightarrow> int \<Rightarrow> int list \<Rightarrow> Bitmap \<Rightarrow> fault + (nat \<times> int list \<times> Bitmap)" where
  "claimSectors capacity i covered wanted arr freeMap =
     (if i < capacity \<and> int (i + covered) < wanted then
        (case FindAndSet freeMap of
           (s, freeMap') \<Rightarrow>
             if s \<ge> 0
             then claimSectors capacity (i + 1) covered wanted (arr[i := s]) freeMap'
             else Inl AssertionFailure)
      else Inr (i, arr, freeMap))"
  by pat_completeness auto
termination
  by (relation "measure (\<lambda>(capacity, i, covered, wanted, arr, freeMap). capacity - i)") auto

text \<open>
  \<^verbatim>\<open>FileHeader::AllocateSingleIndirect\<close>: the claim of the block's own sector is not
  asserted; the block is written before the result is decided.
\<close>

definition AllocateSingleIndirect ::
  "(nat \<Rightarrow> nat \<Rightarrow> int) \<Rightarrow> FileHeader \<Rightarrow> Bitmap \<Rightarrow> Disk \<Rightarrow> fault + (bool \<times> FileHeader \<times> Bitmap \<times> Disk)" where
  "AllocateSingleIndirect heap hdr freeMap d =
     (case FindAndSet freeMap of
        (s, freeMap1) \<Rightarrow>
          (case claimSectors NumIndirect 0 NumDirect (asUnsigned (numSectors hdr))
                  (freshArray (heap 0)) freeMap1 of
             Inl f \<Rightarrow> Inl f
           | Inr (nums, arr, freeMap2) \<Rightarrow>
               (case WriteSector d s
                       (singleImage \<lparr>s_numsSector = int nums, s_dataSectors = arr\<rparr>) of
                  Inl f \<Rightarrow> Inl f
                | Inr d' \<Rightarrow>
                    Inr (nums \<noteq> NumIndirect, hdr\<lparr>SingleIndirectSector := s\<rparr>, freeMap2, d'))))"

text \<open>
  The \<^verbatim>\<open>while\<close> loop of \<^verbatim>\<open>FileHeader::AllocateDoubleIndirect\<close>. The nested block
  is written to the sector found in \<^verbatim>\<open>pointers[numsSector]\<close> after
  \<^verbatim>\<open>numsSector\<close> has been incremented.
\<close>

function DoubleLoop ::
  "(nat \<Rightarrow> nat \<Rightarrow> int) \<Rightarrow> nat \<Rightarrow> int \<Rightarrow> nat \<Rightarrow> int list \<Rightarrow> Bitmap \<Rightarrow> Disk
     \<Rightarrow> fault + (bool \<times> nat \<times> int list \<times> Bitmap \<times> Disk)" where
  "DoubleLoop heap sector_counter wanted nums pointers freeMap d =
     (if int sector_counter \<le> wanted then
        (case FindAndSet freeMap of
           (p, freeMap1) \<Rightarrow>
             (case claimSectors NumIndirect 0 sector_counter wanted (freshArray (heap (2 + nums)))
                     freeMap1 of
                Inl f \<Rightarrow> Inl f
              | Inr (n, arr, freeMap2) \<Rightarrow>
                  if nums + 1 \<ge> NumIndirect
                  then Inr (False, nums + 1, pointers[nums := p], freeMap2, d)
                  else
                    (case WriteSector d ((pointers[nums := p]) ! (nums + 1))
                            (singleImage \<lparr>s_numsSector = int n, s_dataSectors = arr\<rparr>) of
                       Inl f \<Rightarrow> Inl f
                     | Inr d' \<Rightarrow>
                         DoubleLoop heap (sector_counter + NumIndirect) wanted (nums + 1)
                           (pointers[nums := p]) freeMap2 d')))
      else Inr (True, nums, pointers, freeMap, d))"
  by pat_completeness auto
termination
  by (relation "measure (\<lambda>(heap, sector_counter, wanted, nums, pointers, freeMap, d).
        NumIndirect - nums)") auto

definition AllocateDoubleIndirect ::
  "(nat \<Rightarrow> nat \<Rightarrow> int) \<Rightarrow> FileHeader \<Rightarrow> Bitmap \<Rightarrow> Disk \<Rightarrow> fault + (bool \<times> FileHeader \<times> Bitmap \<times> Disk)" where
  "AllocateDoubleIndirect heap hdr freeMap d =
     (case FindAndSet freeMap of
        (s, freeMap1) \<Rightarrow>
          (case DoubleLoop heap (NumIndirect + NumDirect) (numSectors hdr) 0
                  (freshArray (heap 1)) freeMap1 d of
             Inl f \<Rightarrow> Inl f
           | Inr (finished, nums, pointers, freeMap2, d1) \<Rightarrow>
               if \<not> finished
               then Inr (False, hdr\<lparr>DoubleIndirectSector := s\<rparr>, freeMap2, d1)
               else
                 (case WriteSector d1 s
                         (doubleImage \<lparr>d_numsSector = int nums, d_pointers = pointers\<rparr>) of
                    Inl f \<Rightarrow> Inl f
                  | Inr d2 \<Rightarrow> Inr (True, hdr\<lparr>DoubleIndirectSector := s\<rparr>, freeMap2, d2))))"

text \<open>\<^verbatim>\<open>FileHeader::Allocate\<close>\<close>

definition Allocate ::
  "(nat \<Rightarrow> nat \<Rightarrow> int) \<Rightarrow> FileHeader \<Rightarrow> Bitmap \<Rightarrow> Disk \<Rightarrow> int \<Rightarrow> fault + (bool \<times> FileHeader \<times> Bitmap \<times> Disk)" where
  "Allocate heap this freeMap d fileSize =
     (let hdr = this\<lparr>numBytes := fileSize,
                     numSectors := divRoundUp fileSize (int SectorSize),
                     SingleIndirectSector := -1,
                     DoubleIndirectSector := -1\<rparr>
      in if int (NumClear freeMap) < numSectors hdr then Inr (False, hdr, freeMap, d)
         else
           (case claimSectors NumDirect 0 0 (numSectors hdr) (dataSectors hdr) freeMap of
              Inl f \<Rightarrow> Inl f
            | Inr (sectorCounter, arr, freeMap1) \<Rightarrow>
                if int sectorCounter = numSectors hdr
                then Inr (True, hdr\<lparr>dataSectors := arr\<rparr>, freeMap1, d)
                else
                  (case AllocateSingleIndirect heap (hdr\<lparr>dataSectors := arr\<rparr>) freeMap1 d of
                     Inl f \<Rightarrow> Inl f
                   | Inr (ok, hdr2, freeMap2, d2) \<Rightarrow>
                       if ok then Inr (True, hdr2, freeMap2, d2)
                       else AllocateDoubleIndirect heap hdr2 freeMap2 d2)))"

subsection \<open>Deallocate\<close>

text \<open>The loop of lines 150--154: release the direct sectors.\<close>

function DeallocateDirect :: "nat \<Rightarrow> FileHeader \<Rightarrow> Bitmap \<Rightarrow> fault + Bitmap" where
  "DeallocateDirect i hdr freeMap =
     (if int i < numSectors hdr \<and> i < NumDirect then
        (if Test freeMap (dataSectors hdr ! i)
         then (case Clear freeMap (dataSectors hdr ! i) of
                 Inl f \<Rightarrow> Inl f
               | Inr freeMap' \<Rightarrow> DeallocateDirect (i + 1) hdr freeMap')
         else Inl AssertionFailure)
      else Inr freeMap)"
  by pat_completeness auto
termination
  by (relation "measure (\<lambda>(i, hdr, freeMap). NumDirect - i)") auto

text \<open>
  The loops of lines 158--162 and 174--178 run from \<^verbatim>\<open>numsSector - 1\<close> down to 0;
  \<open>clearEntries arr (Suc i)\<close> is the iteration at index \<open>i\<close>. The array has
  \<^verbatim>\<open>NumIndirect\<close> cells: a counter read from the disk that is larger reads outside it.
\<close>

fun clearEntries :: "int list \<Rightarrow> nat \<Rightarrow> Bitmap \<Rightarrow> fault + Bitmap" where
  "clearEntries arr 0 freeMap = Inr freeMap"
| "clearEntries arr (Suc i) freeMap =
     (if i < length arr then
        (if Test freeMap (arr ! i)
         then (case Clear freeMap (arr ! i) of
                 Inl f \<Rightarrow> Inl f
               | Inr freeMap' \<Rightarrow> clearEntries arr i freeMap')
         else Inl AssertionFailure)
      else Inl OutOfBounds)"

text \<open>The loop of lines 170--181 over the pointers of the double-indirect block.\<close>

fun clearNested :: "Disk \<Rightarrow> int list \<Rightarrow> nat \<Rightarrow> Bitmap \<Rightarrow> fault + Bitmap" where
  "clearNested d ptrs 0 freeMap = Inr freeMap"
| "clearNested d ptrs (Suc i) freeMap =
     (if i < length ptrs then
        (case ReadSector d (ptrs ! i) of
           Inl f \<Rightarrow> Inl f
         | Inr xs \<Rightarrow>
             (case clearEntries (s_dataSectors (singleOfImage xs))
                     (nat (s_numsSector (singleOfImage xs))) freeMap of
                Inl f \<Rightarrow> Inl f
              | Inr freeMap1 \<Rightarrow>
                  if Test freeMap1 (ptrs ! i)
                  then (case Clear freeMap1 (ptrs ! i) of
                          Inl f \<Rightarrow> Inl f
                        | Inr freeMap2 \<Rightarrow> clearNested d ptrs i freeMap2)
                  else Inl AssertionFailure))
      else Inl OutOfBounds)"

text \<open>Lines 155--166.\<close>

definition DeallocateSingle :: "FileHeader \<Rightarrow> Bitmap \<Rightarrow> Disk \<Rightarrow> fault + (FileHeader \<times> Bitmap)" where
  "DeallocateSingle hdr freeMap d =
     (if SingleIndirectSector hdr \<noteq> -1 then
        (case ReadSector d (SingleIndirectSector hdr) of
           Inl f \<Rightarrow> Inl f
         | Inr xs \<Rightarrow>
             (case clearEntries (s_dataSectors (singleOfImage xs))
                     (nat (s_numsSector (singleOfImage xs))) freeMap of
                Inl f \<Rightarrow> Inl f
              | Inr freeMap1 \<Rightarrow>
                  if Test freeMap1 (SingleIndirectSector hdr)
                  then (case Clear freeMap1 (SingleIndirectSector hdr) of
                          Inl f \<Rightarrow> Inl f
                        | Inr freeMap2 \<Rightarrow> Inr (hdr\<lparr>SingleIndirectSector := -1\<rparr>, freeMap2))
                  else Inl AssertionFailure))
      else Inr (hdr, freeMap))"

text \<open>Lines 167--185.\<close>

definition DeallocateDouble :: "FileHeader \<Rightarrow> Bitmap \<Rightarrow> Disk \<Rightarrow> fault + (FileHeader \<times> Bitmap)" where
  "DeallocateDouble hdr freeMap d =
     (if DoubleIndirectSector hdr \<noteq> -1 then
        (case ReadSector d (DoubleIndirectSector hdr) of
           Inl f \<Rightarrow> Inl f
         | Inr xs \<Rightarrow>
             (case clearNested d (d_pointers (doubleOfImage xs))
                     (nat (d_numsSector (doubleOfImage xs))) freeMap of
                Inl f \<Rightarrow> Inl f
              | Inr freeMap1 \<Rightarrow>
                  if Test freeMap1 (DoubleIndirectSector hdr)
                  then (case Clear freeMap1 (DoubleIndirectSector hdr) of
                          Inl f \<Rightarrow> Inl f
                        | Inr freeMap2 \<Rightarrow> Inr (hdr\<lparr>DoubleIndirectSector := -1\<rparr>, freeMap2))
                  else Inl AssertionFailure))
      else Inr (hdr, freeMap))"

text \<open>\<^verbatim>\<open>FileHeader::Deallocate\<close>\<close>

definition Deallocate :: "FileHeader \<Rightarrow> Bitmap \<Rightarrow> Disk \<Rightarrow> fault + (FileHeader \<times> Bitmap)" where
  "Deallocate hdr freeMap d =
     (case DeallocateDirect 0 hdr freeMap of
        Inl f \<Rightarrow> Inl f
      | Inr freeMap1 \<Rightarrow>
          (case DeallocateSingle hdr freeMap1 d of
             Inl f \<Rightarrow> Inl f
           | Inr (hdr1, freeMap2) \<Rightarrow> DeallocateDouble hdr1 freeMap2 d))"

subsection \<open>ByteToSector\<close>

text \<open>
  \<^verbatim>\<open>FileHeader::ByteToSector\<close>. It takes the header and the disk and returns a sector
  number only: no bitmap is in its reach. The arrays have \<^verbatim>\<open>NumDirect\<close> and
  \<^verbatim>\<open>NumIndirect\<close> cells; the index into the pointers of the double-indirect block
  is not checked by the source. The offset is a position in the file, a natural number.
\<close>

definition ByteToSector :: "FileHeader \<Rightarrow> Disk \<Rightarrow> nat \<Rightarrow> fault + int" where
  "ByteToSector hdr d offset =
     (let offset_sector = offset div SectorSize in
      if offset_sector < NumDirect then Inr (dataSectors hdr ! offset_sector)
      else if offset_sector < NumIndirect + NumDirect then
        (case ReadSector d (SingleIndirectSector hdr) of
           Inl f \<Rightarrow> Inl f
         | Inr xs \<Rightarrow> Inr (s_dataSectors (singleOfImage xs) ! (offset_sector - NumDirect)))
      else if (offset_sector - NumDirect - NumIndirect) div NumIndirect < NumIndirect then
        (case ReadSector d (DoubleIndirectSector hdr) of
           Inl f \<Rightarrow> Inl f
         | Inr xs \<Rightarrow>
             (case ReadSector d
                     (d_pointers (doubleOfImage xs)
                        ! ((offset_sector - NumDirect - NumIndirect) div NumIndirect)) of
                Inl f \<Rightarrow> Inl f
              | Inr ys \<Rightarrow>
                  Inr (s_dataSectors (singleOfImage ys)
                         ! ((offset_sector - NumDirect - NumIndirect) mod NumIndirect))))
      else Inl OutOfBounds)"

section \<open>Directories\<close>

text \<open>
  Modelled from the spec: \<^verbatim>\<open>directory.cc\<close> is missing. A directory is a table of
  fixed capacity. \<^verbatim>\<open>find\<close> scans the entries in use for an exact match of the name
  and gives the sector of the header, or \<open>-1\<close>; \<^verbatim>\<open>add\<close> fails when the name is
  present or no slot is free and takes the first free slot otherwise; \<^verbatim>\<open>remove\<close>
  marks the slot free and moves nothing.
\<close>

fun FindIndex :: "Directory \<Rightarrow> string \<Rightarrow> nat option" where
  "FindIndex [] nm = None"
| "FindIndex (e # es) nm =
     (if e_inUse e \<and> e_name e = nm then Some 0 else map_option Suc (FindIndex es nm))"

definition Directory_Find :: "Directory \<Rightarrow> string \<Rightarrow> int" where
  "Directory_Find dir nm = (case FindIndex dir nm of None \<Rightarrow> -1 | Some i \<Rightarrow> e_sector (dir ! i))"

fun firstFree :: "Directory \<Rightarrow> nat option" where
  "firstFree [] = None"
| "firstFree (e # es) = (if e_inUse e then map_option Suc (firstFree es) else Some 0)"

definition Directory_Add :: "Directory \<Rightarrow> string \<Rightarrow> int \<Rightarrow> entry_kind \<Rightarrow> bool \<times> Directory" where
  "Directory_Add dir nm newSector k =
     (if FindIndex dir nm \<noteq> None then (False, dir)
      else
        (case firstFree dir of
           None \<Rightarrow> (False, dir)
         | Some i \<Rightarrow>
             (True, dir[i := \<lparr>e_inUse = True, e_name = nm, e_sector = newSector, e_kind = k\<rparr>])))"

definition Directory_Remove :: "Directory \<Rightarrow> string \<Rightarrow> bool \<times> Directory" where
  "Directory_Remove dir nm =
     (case FindIndex dir nm of
        None \<Rightarrow> (False, dir)
      | Some i \<Rightarrow> (True, dir[i := (dir ! i)\<lparr>e_inUse := False\<rparr>]))"

text \<open>\<^verbatim>\<open>Directory::List\<close> prints the names of the entries in use.\<close>

definition Directory_List :: "Directory \<Rightarrow> string list" where
  "Directory_List dir = map e_name (filter e_inUse dir)"

text \<open>\<^verbatim>\<open>#define NumDirEntries 64\<close>; a new directory has no entry in use.\<close>

definition NumDirEntries :: nat where
  "NumDirEntries = 64"

definition emptyEntry :: DirectoryEntry where
  "emptyEntry = \<lparr>e_inUse = False, e_name = [], e_sector = 0, e_kind = IS_FILE\<rparr>"

definition newDirectory :: "nat \<Rightarrow> Directory" where
  "newDirectory n = replicate n emptyEntry"

text \<open>
  The directory and the bitmap are read from and written to their files as a whole;
  the file of a directory is named by the sector of its header. The header is one raw
  sector.
\<close>

definition Directory_FetchFrom :: "Disk \<Rightarrow> int \<Rightarrow> Directory" where
  "Directory_FetchFrom d file = dirFiles d file"

definition Directory_WriteBack :: "Disk \<Rightarrow> int \<Rightarrow> Directory \<Rightarrow> Disk" where
  "Directory_WriteBack d file dir =
     d\<lparr>dirFiles := (dirFiles d)(file := dir), journal := journal d @ [WroteDirectory file]\<rparr>"

definition Bitmap_WriteBack :: "Disk \<Rightarrow> Bitmap \<Rightarrow> Disk" where
  "Bitmap_WriteBack d freeMap = d\<lparr>mapFile := freeMap, journal := journal d @ [WroteBitmap]\<rparr>"

definition FileHeader_FetchFrom :: "Disk \<Rightarrow> int \<Rightarrow> fault + FileHeader" where
  "FileHeader_FetchFrom d sector =
     (case ReadSector d sector of Inl f \<Rightarrow> Inl f | Inr xs \<Rightarrow> Inr (headerOfImage xs))"

definition FileHeader_WriteBack :: "Disk \<Rightarrow> int \<Rightarrow> FileHeader \<Rightarrow> fault + Disk" where
  "FileHeader_WriteBack d sector hdr = WriteSector d sector (headerImage hdr)"

text \<open>\<^verbatim>\<open>new FileHeader\<close> initialises nothing: the header holds what the memory held.\<close>

definition freshHeader :: "(nat \<Rightarrow> int) \<Rightarrow> FileHeader" where
  "freshHeader cells = headerOfImage (map cells [0..<NumDirect + 4])"

section \<open>The file system\<close>

text \<open>
  An open file is known by the sector of its header and its seek position. The table of
  open files maps an identifier to a pointer, which may be null (\<open>None\<close>). The current
  directory is the open directory file and the directory object read from it.
\<close>

record OpenFile =
  of_sector :: int
  of_seekPosition :: int

record FileSystem =
  disk :: Disk
  currentDirectoryFile :: int
  currentDirectory :: Directory
  openedTable :: "int \<rightharpoonup> OpenFile option"

text \<open>
  \<^verbatim>\<open>FileSystem::splitPath\<close>: \<^verbatim>\<open>strtok\<close> with the separator \<^verbatim>\<open>/\<close> yields the
  non-empty pieces. The path is copied into 30 bytes without a terminator when it has 30
  characters or more, and the callers' arrays have 10 cells: beyond either bound the
  source reads or writes outside an array.
\<close>

fun strtok :: "string \<Rightarrow> string \<Rightarrow> string list" where
  "strtok tok [] = (if tok = [] then [] else [tok])"
| "strtok tok (c # cs) =
     (if c = CHR ''/'' then (if tok = [] then strtok [] cs else tok # strtok [] cs)
      else strtok (tok @ [c]) cs)"

definition splitPath :: "string \<Rightarrow> fault + string list" where
  "splitPath path =
     (if 30 \<le> length path \<or> 10 < length (strtok [] path) then Inl OutOfBounds
      else Inr (strtok [] path))"

text \<open>\<^verbatim>\<open>FileSystem::resetRootDir\<close>\<close>

definition resetRootDir :: "FileSystem \<Rightarrow> FileSystem" where
  "resetRootDir fs =
     fs\<lparr>currentDirectoryFile := DirectorySector,
        currentDirectory := Directory_FetchFrom (disk fs) DirectorySector\<rparr>"

text \<open>
  \<^verbatim>\<open>FileSystem::changeToRightDir(arr, len)\<close>, given the first \<open>len\<close> cells of the
  array. It looks the name up in the directory object in memory, writes that object back
  and opens the directory found.
\<close>

fun changeToRightDir :: "FileSystem \<Rightarrow> string list \<Rightarrow> bool \<times> FileSystem" where
  "changeToRightDir fs [] = (True, fs)"
| "changeToRightDir fs (a # arr) =
     (if Directory_Find (currentDirectory fs) a = -1 then (False, fs)
      else
        changeToRightDir
          (fs\<lparr>disk := Directory_WriteBack (disk fs) (currentDirectoryFile fs) (currentDirectory fs),
              currentDirectoryFile := Directory_Find (currentDirectory fs) a,
              currentDirectory :=
                Directory_FetchFrom
                  (Directory_WriteBack (disk fs) (currentDirectoryFile fs) (currentDirectory fs))
                  (Directory_Find (currentDirectory fs) a)\<rparr>)
          arr)"

text \<open>
  \<^verbatim>\<open>FileSystem::Create\<close>. \<open>heap 0\<close> is the memory of the new header; the objects of
  \<^verbatim>\<open>Allocate\<close> follow. With no piece in the path the source reads \<^verbatim>\<open>dir_arr[-1]\<close>.
\<close>

definition Create :: "(nat \<Rightarrow> nat \<Rightarrow> int) \<Rightarrow> FileSystem \<Rightarrow> string \<Rightarrow> int \<Rightarrow> fault + (bool \<times> FileSystem)" where
  "Create heap fs name initialSize =
     (case splitPath name of
        Inl f \<Rightarrow> Inl f
      | Inr dir_arr \<Rightarrow>
          if dir_arr = [] then Inl OutOfBounds
          else
            (case changeToRightDir fs (butlast dir_arr) of
               (False, fs1) \<Rightarrow> Inl AssertionFailure
             | (True, fs1) \<Rightarrow>
                 (let dir = Directory_FetchFrom (disk fs1) (currentDirectoryFile fs1) in
                  if Directory_Find dir (last dir_arr) \<noteq> -1
                  then Inr (False, resetRootDir (fs1\<lparr>currentDirectory := dir\<rparr>))
                  else
                    (case FindAndSet (mapFile (disk fs1)) of
                       (sector, freeMap) \<Rightarrow>
                         if sector = -1
                         then Inr (False, resetRootDir (fs1\<lparr>currentDirectory := dir\<rparr>))
                         else
                           (case Directory_Add dir (last dir_arr) sector IS_FILE of
                              (False, dir1) \<Rightarrow>
                                Inr (False, resetRootDir (fs1\<lparr>currentDirectory := dir1\<rparr>))
                            | (True, dir1) \<Rightarrow>
                                (case Allocate (\<lambda>k. heap (Suc k)) (freshHeader (heap 0)) freeMap
                                        (disk fs1) initialSize of
                                   Inl f \<Rightarrow> Inl f
                                 | Inr (False, hdr, freeMap1, d1) \<Rightarrow>
                                     Inr (False,
                                          resetRootDir (fs1\<lparr>disk := d1, currentDirectory := dir1\<rparr>))
                                 | Inr (True, hdr, freeMap1, d1) \<Rightarrow>
                                     (case FileHeader_WriteBack d1 sector hdr of
                                        Inl f \<Rightarrow> Inl f
                                      | Inr d2 \<Rightarrow>
                                          Inr (True,
                                               resetRootDir
                                                 (fs1\<lparr>disk :=
                                                        Bitmap_WriteBack
                                                          (Directory_WriteBack d2
                                                             (currentDirectoryFile fs1) dir1)
                                                          freeMap1,
                                                      currentDirectory := dir1\<rparr>)))))))))"

text \<open>\<^verbatim>\<open>FileSystem::Open\<close>\<close>

definition Open :: "FileSystem \<Rightarrow> string \<Rightarrow> fault + (OpenFile option \<times> FileSystem)" where
  "Open fs name =
     (case splitPath name of
        Inl f \<Rightarrow> Inl f
      | Inr dir_arr \<Rightarrow>
          if dir_arr = [] then Inl OutOfBounds
          else
            (case changeToRightDir fs (butlast dir_arr) of
               (False, fs1) \<Rightarrow> Inl AssertionFailure
             | (True, fs1) \<Rightarrow>
                 (let dir = Directory_FetchFrom (disk fs1) (currentDirectoryFile fs1);
                      sector = Directory_Find dir (last dir_arr)
                  in Inr (if sector \<ge> 0
                          then Some \<lparr>of_sector = sector, of_seekPosition = 0\<rparr> else None,
                          resetRootDir (fs1\<lparr>currentDirectory := dir\<rparr>)))))"

text \<open>
  \<^verbatim>\<open>FileSystem::OpenAFile\<close>. \<^verbatim>\<open>rand()\<close> is a parameter: the list of the values it
  will return. The loop ends at the first value that is not a key of the table; when the
  list has none, the model gives \<open>None\<close>.
\<close>

fun chooseId :: "int list \<Rightarrow> (int \<rightharpoonup> OpenFile option) \<Rightarrow> int option" where
  "chooseId [] table = None"
| "chooseId (r # rands) table = (if table r \<noteq> None then chooseId rands table else Some r)"

definition OpenAFile :: "int list \<Rightarrow> FileSystem \<Rightarrow> string \<Rightarrow> (fault + (int \<times> FileSystem)) option" where
  "OpenAFile rands fs name =
     (case Open fs name of
        Inl f \<Rightarrow> Some (Inl f)
      | Inr (one_file, fs1) \<Rightarrow>
          (case chooseId rands (openedTable fs1) of
             None \<Rightarrow> None
           | Some fd \<Rightarrow>
               Some (Inr (fd, fs1\<lparr>openedTable := (openedTable fs1)(fd \<mapsto> one_file)\<rparr>))))"

text \<open>
  \<^verbatim>\<open>FileSystem::WriteAFile\<close>, \<^verbatim>\<open>ReadAFile\<close> and \<^verbatim>\<open>CloseAFile\<close>.
  \<^verbatim>\<open>OpenFile::Write\<close> and \<^verbatim>\<open>OpenFile::Read\<close> are not among the sources: they are
  parameters, from the open file, the disk, the buffer and the size (\<open>nbytes\<close>) to the count
  returned
  and what they changed.
\<close>

definition WriteAFile ::
  "(OpenFile \<Rightarrow> Disk \<Rightarrow> string \<Rightarrow> int \<Rightarrow> int \<times> OpenFile \<times> Disk)
     \<Rightarrow> FileSystem \<Rightarrow> string \<Rightarrow> int \<Rightarrow> int \<Rightarrow> fault + (int \<times> FileSystem)" where
  "WriteAFile fileWrite fs buffer nbytes fd =
     (case openedTable fs fd of
        None \<Rightarrow> Inr (0, fs)
      | Some None \<Rightarrow> Inl NullPointer
      | Some (Some file) \<Rightarrow>
          (case fileWrite file (disk fs) buffer nbytes of
             (n, file', d') \<Rightarrow>
               Inr (n, fs\<lparr>disk := d', openedTable := (openedTable fs)(fd \<mapsto> Some file')\<rparr>)))"

definition ReadAFile ::
  "(OpenFile \<Rightarrow> Disk \<Rightarrow> string \<Rightarrow> int \<Rightarrow> int \<times> OpenFile \<times> string)
     \<Rightarrow> FileSystem \<Rightarrow> string \<Rightarrow> int \<Rightarrow> int \<Rightarrow> fault + (int \<times> string \<times> FileSystem)" where
  "ReadAFile fileRead fs buffer nbytes fd =
     (case openedTable fs fd of
        None \<Rightarrow> Inr (0, buffer, fs)
      | Some None \<Rightarrow> Inl NullPointer
      | Some (Some file) \<Rightarrow>
          (case fileRead file (disk fs) buffer nbytes of
             (n, file', buffer') \<Rightarrow>
               Inr (n, buffer', fs\<lparr>openedTable := (openedTable fs)(fd \<mapsto> Some file')\<rparr>)))"

definition CloseAFile :: "FileSystem \<Rightarrow> int \<Rightarrow> int \<times> FileSystem" where
  "CloseAFile fs fd =
     (case openedTable fs fd of
        None \<Rightarrow> (0, fs)
      | Some file \<Rightarrow> (1, fs\<lparr>openedTable := (openedTable fs)(fd := None)\<rparr>))"

text \<open>
  \<^verbatim>\<open>FileSystem::Remove\<close>. The directory is searched for \<^verbatim>\<open>name\<close>, the whole
  argument, and the return of line 550 comes before \<^verbatim>\<open>resetRootDir\<close>.
\<close>

definition Remove :: "FileSystem \<Rightarrow> string \<Rightarrow> fault + (bool \<times> FileSystem)" where
  "Remove fs name =
     (case splitPath name of
        Inl f \<Rightarrow> Inl f
      | Inr dir_arr \<Rightarrow>
          if dir_arr = [] then Inl OutOfBounds
          else
            (case changeToRightDir fs (butlast dir_arr) of
               (False, fs1) \<Rightarrow> Inl AssertionFailure
             | (True, fs1) \<Rightarrow>
                 (let dir = Directory_FetchFrom (disk fs1) (currentDirectoryFile fs1);
                      sector = Directory_Find dir name
                  in if sector = -1 then Inr (False, fs1\<lparr>currentDirectory := dir\<rparr>)
                     else
                       (case FileHeader_FetchFrom (disk fs1) sector of
                          Inl f \<Rightarrow> Inl f
                        | Inr fileHdr \<Rightarrow>
                            (case Deallocate fileHdr (mapFile (disk fs1)) (disk fs1) of
                               Inl f \<Rightarrow> Inl f
                             | Inr (fileHdr1, freeMap) \<Rightarrow>
                                 (case Clear freeMap sector of
                                    Inl f \<Rightarrow> Inl f
                                  | Inr freeMap1 \<Rightarrow>
                                      Inr (True,
                                           resetRootDir
                                             (fs1\<lparr>disk :=
                                                    Directory_WriteBack
                                                      (Bitmap_WriteBack (disk fs1) freeMap1)
                                                      (currentDirectoryFile fs1)
                                                      (snd (Directory_Remove dir name)),
                                                  currentDirectory :=
                                                    snd (Directory_Remove dir name)\<rparr>))))))))"

text \<open>\<^verbatim>\<open>FileSystem::List\<close>: the result of \<^verbatim>\<open>changeToRightDir\<close> is not looked at.\<close>

definition List_path :: "FileSystem \<Rightarrow> string \<Rightarrow> fault + (string list \<times> FileSystem)" where
  "List_path fs path =
     (case splitPath path of
        Inl f \<Rightarrow> Inl f
      | Inr dir_arr \<Rightarrow>
          (case changeToRightDir fs dir_arr of
             (ok, fs1) \<Rightarrow>
               Inr (Directory_List (Directory_FetchFrom (disk fs1) (currentDirectoryFile fs1)),
                    resetRootDir fs1)))"

text \<open>
  \<^verbatim>\<open>FileSystem::createDir\<close>. \<^verbatim>\<open>DirectoryFileSize\<close> is
  \<^verbatim>\<open>sizeof(DirectoryEntry) * NumDirEntries\<close>; \<^verbatim>\<open>directory.h\<close> is missing, so the
  size of the directory file is a parameter.
\<close>

definition createDir ::
  "(nat \<Rightarrow> nat \<Rightarrow> int) \<Rightarrow> nat \<Rightarrow> FileSystem \<Rightarrow> string \<Rightarrow> fault + (bool \<times> FileSystem)" where
  "createDir heap DirectoryFileSize fs name =
     (let dir = Directory_FetchFrom (disk fs) (currentDirectoryFile fs) in
      if Directory_Find dir name \<noteq> -1 then Inr (False, fs\<lparr>currentDirectory := dir\<rparr>)
      else
        (case FindAndSet (mapFile (disk fs)) of
           (sector, freeMap) \<Rightarrow>
             if sector = -1 then Inr (False, fs\<lparr>currentDirectory := dir\<rparr>)
             else
               (case Directory_Add dir name sector IS_DIR of
                  (False, dir1) \<Rightarrow> Inr (False, fs\<lparr>currentDirectory := dir1\<rparr>)
                | (True, dir1) \<Rightarrow>
                    (case Allocate (\<lambda>k. heap (Suc k)) (freshHeader (heap 0)) freeMap (disk fs)
                            (int DirectoryFileSize) of
                       Inl f \<Rightarrow> Inl f
                     | Inr (False, hdr, freeMap1, d1) \<Rightarrow>
                         Inr (False, fs\<lparr>disk := d1, currentDirectory := dir1\<rparr>)
                     | Inr (True, hdr, freeMap1, d1) \<Rightarrow>
                         (case FileHeader_WriteBack d1 sector hdr of
                            Inl f \<Rightarrow> Inl f
                          | Inr d2 \<Rightarrow>
                              Inr (True,
                                   fs\<lparr>disk :=
                                        Bitmap_WriteBack
                                          (Directory_WriteBack
                                             (Directory_WriteBack d2 sector
                                                (newDirectory NumDirEntries))
                                             (currentDirectoryFile fs) dir1)
                                          freeMap1,
                                      currentDirectory := dir1\<rparr>))))))"

text \<open>
  \<^verbatim>\<open>FileSystem::MakeNewDir\<close>: the three returns of \<^verbatim>\<open>false\<close> come before
  \<^verbatim>\<open>resetRootDir\<close>.
\<close>

definition MakeNewDir ::
  "(nat \<Rightarrow> nat \<Rightarrow> int) \<Rightarrow> nat \<Rightarrow> FileSystem \<Rightarrow> string \<Rightarrow> fault + (bool \<times> FileSystem)" where
  "MakeNewDir heap DirectoryFileSize fs name =
     (if name = [] \<or> hd name \<noteq> CHR ''/'' then Inr (False, fs)
      else
        (case splitPath name of
           Inl f \<Rightarrow> Inl f
         | Inr dir_arr \<Rightarrow>
             if dir_arr = [] then Inl OutOfBounds
             else
               (case changeToRightDir fs (butlast dir_arr) of
                  (False, fs1) \<Rightarrow> Inr (False, fs1)
                | (True, fs1) \<Rightarrow>
                    (case createDir heap DirectoryFileSize fs1 (last dir_arr) of
                       Inl f \<Rightarrow> Inl f
                     | Inr (False, fs2) \<Rightarrow> Inr (False, fs2)
                     | Inr (True, fs2) \<Rightarrow> Inr (True, resetRootDir fs2)))))"

text \<open>
  Two disks hold the same contents when their raw sectors, their directory files and
  their bitmap file agree; the journal of the writes is not compared.
\<close>

definition sameContents :: "Disk \<Rightarrow> Disk \<Rightarrow> bool" where
  "sameContents d d' \<longleftrightarrow>
     sectors d' = sectors d \<and> dirFiles d' = dirFiles d \<and> mapFile d' = mapFile d"

section \<open>Concrete states\<close>

text \<open>
  A disk whose sectors hold zeros, fresh memory that holds zeros, and the header object
  that such memory gives.
\<close>

definition blankDisk :: "nat \<Rightarrow> Disk" where
  "blankDisk n =
     \<lparr>diskSize = n, sectors = (\<lambda>_. replicate 32 0), dirFiles = (\<lambda>_. []),
      mapFile = [], journal = []\<rparr>"

definition zeroHeap :: "nat \<Rightarrow> nat \<Rightarrow> int" where
  "zeroHeap k i = 0"

definition blankHeader :: FileHeader where
  "blankHeader = headerOfImage (replicate 32 0)"

text \<open>
  A formatted disk of 1024 sectors with 16 sectors in use: the root directory holds the
  directory \<open>a\<close> (header in sector 5) and the file \<open>f\<close> (header in sector 7), and
  \<open>a\<close> holds the file \<open>g\<close> (header in sector 9). The file system has its cursor on
  the root directory and no open file.
\<close>

definition dirEntry :: "string \<Rightarrow> int \<Rightarrow> entry_kind \<Rightarrow> DirectoryEntry" where
  "dirEntry nm s k = \<lparr>e_inUse = True, e_name = nm, e_sector = s, e_kind = k\<rparr>"

definition sampleDisk :: Disk where
  "sampleDisk =
     (blankDisk 1024)
       \<lparr>dirFiles :=
          (\<lambda>_. newDirectory NumDirEntries)
            (DirectorySector := dirEntry ''a'' 5 IS_DIR # dirEntry ''f'' 7 IS_FILE # newDirectory 62,
             5 := dirEntry ''g'' 9 IS_FILE # newDirectory 63),
        mapFile := replicate 16 True @ replicate 1008 False\<rparr>"

definition sampleFS :: FileSystem where
  "sampleFS =
     \<lparr>disk = sampleDisk, currentDirectoryFile = DirectorySector,
      currentDirectory = Directory_FetchFrom sampleDisk DirectorySector,
      openedTable = Map.empty\<rparr>"

text \<open>
  A larger disk, of 2048 sectors with 16 in use, and an empty root directory.
\<close>

definition bigFS :: FileSystem where
  "bigFS =
     \<lparr>disk = (blankDisk 2048)
               \<lparr>dirFiles := (\<lambda>_. newDirectory NumDirEntries),
                mapFile := replicate 16 True @ replicate 2032 False\<rparr>,
      currentDirectoryFile = DirectorySector,
      currentDirectory = newDirectory NumDirEntries,
      openedTable = Map.empty\<rparr>"

text \<open>
  The disk of \<open>sampleFS\<close> with four free sectors, and with none.
\<close>

definition crampedFS :: FileSystem where
  "crampedFS = sampleFS\<lparr>disk := sampleDisk\<lparr>mapFile := replicate 1020 True @ replicate 4 False\<rparr>\<rparr>"

definition fullFS :: FileSystem where
  "fullFS = sampleFS\<lparr>disk := sampleDisk\<lparr>mapFile := replicate 1024 True\<rparr>\<rparr>"

text \<open>
  A disk whose root directory has its 64 entries in use, under the names \<open>aa\<close> to
  \<open>hh\<close>.
\<close>

definition fullDirectory :: Directory where
  "fullDirectory =
     map (\<lambda>(nm, s). dirEntry nm s IS_FILE)
       (zip [[a, b]. a \<leftarrow> ''abcdefgh'', b \<leftarrow> ''abcdefgh''] (map int [20..<84]))"

definition crowdedFS :: FileSystem where
  "crowdedFS =
     \<lparr>disk = (blankDisk 1024)
               \<lparr>dirFiles := (\<lambda>_. newDirectory NumDirEntries)(DirectorySector := fullDirectory),
                mapFile := replicate 100 True @ replicate 924 False\<rparr>,
      currentDirectoryFile = DirectorySector,
      currentDirectory = fullDirectory,
      openedTable = Map.empty\<rparr>"

section \<open>Facts about the bitmap and the claiming loop\<close>

declare claimSectors.simps [simp del]

declare DoubleLoop.simps [simp del]

declare DeallocateDirect.simps [simp del]

lemma layout: "NumDirect = 28" "NumIndirect = 31" "SectorSize = 128"
  by (simp_all add: NumDirect_def NumIndirect_def SectorSize_def)

lemma lowestClear_prefix: "lowestClear (replicate k True @ False # bs) = Some k"
  by (induction k) auto

lemma lowestClear_full: "lowestClear (replicate k True) = None"
  by (induction k) auto

lemma FindAndSet_prefix:
  "FindAndSet (replicate k True @ replicate (Suc m) False)
     = (int k, replicate (Suc k) True @ replicate m False)"
proof -
  have "(replicate k True @ False # replicate m False)[k := True]
          = replicate k True @ True # replicate m False"
    by (simp add: list_update_append)
  also have "\<dots> = replicate (Suc k) True @ replicate m False"
    by (simp add: replicate_append_same)
  finally show ?thesis
    by (simp add: FindAndSet_def lowestClear_prefix)
qed

lemma FindAndSet_full: "FindAndSet (replicate k True @ replicate 0 False) = (-1, replicate k True @ replicate 0 False)"
  by (simp add: FindAndSet_def lowestClear_full)

lemma NumClear_prefix: "NumClear (replicate k True @ replicate m False) = m"
  by (simp add: NumClear_def)

lemma claimSectors_run:
  "\<lbrakk>i + c \<le> capacity; int (i + c + covered) \<le> wanted;
    i + c = capacity \<or> int (i + c + covered) = wanted; c \<le> m; i + c \<le> length arr\<rbrakk>
   \<Longrightarrow> claimSectors capacity i covered wanted arr (replicate k True @ replicate m False)
       = Inr (i + c, take i arr @ map int [k..<k + c] @ drop (i + c) arr,
              replicate (k + c) True @ replicate (m - c) False)"
proof (induction c arbitrary: i arr k m)
  case 0
  then show ?case by (subst claimSectors.simps) auto
next
  case (Suc c)
  from Suc.prems obtain m' where m: "m = Suc m'" by (cases m) auto
  have cond: "i < capacity \<and> int (i + covered) < wanted" using Suc.prems by auto
  have len: "i < length arr" using Suc.prems by auto
  have ih: "claimSectors capacity (Suc i) covered wanted (arr[i := int k])
              (replicate (Suc k) True @ replicate m' False)
            = Inr (Suc i + c, take (Suc i) (arr[i := int k]) @ map int [Suc k..<Suc k + c]
                     @ drop (Suc i + c) (arr[i := int k]),
                   replicate (Suc k + c) True @ replicate (m' - c) False)"
    using Suc.prems m by (intro Suc.IH) auto
  have lst: "take (Suc i) (arr[i := int k]) @ map int [Suc k..<Suc k + c]
                     @ drop (Suc i + c) (arr[i := int k])
             = take i arr @ map int [k..<k + Suc c] @ drop (i + Suc c) arr"
    using len by (simp add: take_Suc_conv_app_nth upt_conv_Cons)
  have "claimSectors capacity i covered wanted arr (replicate k True @ replicate m False)
          = claimSectors capacity (Suc i) covered wanted (arr[i := int k])
              (replicate (Suc k) True @ replicate m' False)"
    using cond by (subst claimSectors.simps) (simp add: m FindAndSet_prefix del: replicate.simps)
  also note ih
  also have "Inr (Suc i + c, take (Suc i) (arr[i := int k]) @ map int [Suc k..<Suc k + c]
                     @ drop (Suc i + c) (arr[i := int k]),
                   replicate (Suc k + c) True @ replicate (m' - c) False)
             = (Inr (i + Suc c, take i arr @ map int [k..<k + Suc c] @ drop (i + Suc c) arr,
                   replicate (k + Suc c) True @ replicate (m - Suc c) False)
                 :: fault + (nat \<times> int list \<times> Bitmap))"
    unfolding lst by (simp add: m)
  finally show ?case .
qed

lemma claimSectors_abort:
  "\<lbrakk>i + m < capacity; int (i + m + covered) < wanted\<rbrakk>
   \<Longrightarrow> claimSectors capacity i covered wanted arr (replicate k True @ replicate m False)
       = Inl AssertionFailure"
proof (induction m arbitrary: i arr k)
  case 0
  then show ?case
    by (subst claimSectors.simps) (simp add: FindAndSet_def lowestClear_full)
next
  case (Suc m)
  have ih: "claimSectors capacity (Suc i) covered wanted (arr[i := int k])
              (replicate (Suc k) True @ replicate m False) = Inl AssertionFailure"
    using Suc.prems by (intro Suc.IH) auto
  have cond: "i < capacity \<and> int (i + covered) < wanted" using Suc.prems by auto
  have "claimSectors capacity i covered wanted arr (replicate k True @ replicate (Suc m) False)
          = claimSectors capacity (Suc i) covered wanted (arr[i := int k])
              (replicate (Suc k) True @ replicate m False)"
    using cond by (subst claimSectors.simps) (simp add: FindAndSet_prefix del: replicate.simps)
  with ih show ?case by simp
qed

lemma FindAndSet_prefix':
  "0 < m \<Longrightarrow> FindAndSet (replicate k True @ replicate m False)
     = (int k, replicate (Suc k) True @ replicate (m - 1) False)"
  using FindAndSet_prefix[of k "m - 1"] by simp

lemma blankHeader_data: "dataSectors blankHeader = replicate 28 0"
  by (simp add: blankHeader_def headerOfImage_def layout)

lemma freshArray_zero: "freshArray (zeroHeap k) = replicate 31 0"
proof -
  have "zeroHeap k = (\<lambda>_. 0)" by (simp add: fun_eq_iff zeroHeap_def)
  then show ?thesis by (simp add: freshArray_def layout map_replicate_const)
qed

lemma Allocate_59:
  "Allocate zeroHeap blankHeader (replicate 2 True @ replicate 1022 False) (blankDisk 1024)
     (59 * int SectorSize)
   = Inr (True,
          blankHeader\<lparr>numBytes := 7552, numSectors := 59, dataSectors := map int [2..<30],
                       SingleIndirectSector := 30, DoubleIndirectSector := 62\<rparr>,
          replicate 64 True @ replicate 960 False,
          (blankDisk 1024)\<lparr>sectors := (sectors (blankDisk 1024))
                               (30 := 31 # map int [31..<62],
                                0 := 0 # replicate 31 0,
                                62 := 1 # (replicate 31 0)[0 := 63]),
                            journal := [WroteSector 30, WroteSector 0, WroteSector 62]\<rparr>)"
proof -
  have direct: "claimSectors 28 0 0 59 (replicate 28 0) (replicate 2 True @ replicate 1022 False)
        = Inr (28, map int [2..<30], replicate 30 True @ replicate 994 False)"
    using claimSectors_run[of 0 28 28 0 59 1022 "replicate 28 0" 2] by simp
  have single: "claimSectors 31 0 28 59 (replicate 31 0) (replicate 31 True @ replicate 993 False)
        = Inr (31, map int [31..<62], replicate 62 True @ replicate 962 False)"
    using claimSectors_run[of 0 31 31 28 59 993 "replicate 31 0" 31] by simp
  have nested: "claimSectors 31 0 59 59 (replicate 31 0) (replicate 64 True @ replicate 960 False)
        = Inr (0, replicate 31 0, replicate 64 True @ replicate 960 False)"
    using claimSectors_run[of 0 0 31 59 59 960 "replicate 31 0" 64] by simp
  have last: "DoubleLoop zeroHeap 90 59 (Suc 0) P B D = Inr (True, Suc 0, P, B, D)" for P B D
    by (subst DoubleLoop.simps) simp
  have loop: "DoubleLoop zeroHeap 59 59 0 (replicate 31 0) (replicate 63 True @ replicate 961 False) D
        = Inr (True, Suc 0, (replicate 31 0)[0 := 63], replicate 64 True @ replicate 960 False,
               D\<lparr>sectors := (sectors D)(0 := 0 # replicate 31 0), journal := journal D @ [WroteSector 0]\<rparr>)"
    if "diskSize D = 1024" for D
    by (subst DoubleLoop.simps)
       (simp add: FindAndSet_prefix' freshArray_zero nested layout WriteSector_def singleImage_def last that
             del: replicate.simps)
  show ?thesis
    by (simp add: Allocate_def AllocateSingleIndirect_def AllocateDoubleIndirect_def
          divRoundUp_def cquot_def crem_def asUnsigned_def
          layout NumClear_prefix blankHeader_data direct single loop FindAndSet_prefix' freshArray_zero
          WriteSector_def singleImage_def doubleImage_def blankDisk_def
          del: replicate.simps)
qed

lemma Allocate_60:
  "Allocate zeroHeap blankHeader (replicate 2 True @ replicate 1022 False) (blankDisk 1024)
     (60 * int SectorSize)
   = Inr (True,
          blankHeader\<lparr>numBytes := 7680, numSectors := 60, dataSectors := map int [2..<30],
                       SingleIndirectSector := 30, DoubleIndirectSector := 62\<rparr>,
          replicate 65 True @ replicate 959 False,
          (blankDisk 1024)\<lparr>sectors := (sectors (blankDisk 1024))
                               (30 := 31 # map int [31..<62],
                                0 := 1 # (replicate 31 0)[0 := 64],
                                62 := 1 # (replicate 31 0)[0 := 63]),
                            journal := [WroteSector 30, WroteSector 0, WroteSector 62]\<rparr>)"
proof -
  have direct: "claimSectors 28 0 0 60 (replicate 28 0) (replicate 2 True @ replicate 1022 False)
        = Inr (28, map int [2..<30], replicate 30 True @ replicate 994 False)"
    using claimSectors_run[of 0 28 28 0 60 1022 "replicate 28 0" 2] by simp
  have single: "claimSectors 31 0 28 60 (replicate 31 0) (replicate 31 True @ replicate 993 False)
        = Inr (31, map int [31..<62], replicate 62 True @ replicate 962 False)"
    using claimSectors_run[of 0 31 31 28 60 993 "replicate 31 0" 31] by simp
  have nested: "claimSectors 31 0 59 60 (replicate 31 0) (replicate 64 True @ replicate 960 False)
        = Inr (Suc 0, (replicate 31 0)[0 := 64], replicate 65 True @ replicate 959 False)"
    using claimSectors_run[of 0 1 31 59 60 960 "replicate 31 0" 64]
    by (simp add: upd_conv_take_nth_drop del: replicate.simps)
  have last: "DoubleLoop zeroHeap 90 60 (Suc 0) P B D = Inr (True, Suc 0, P, B, D)" for P B D
    by (subst DoubleLoop.simps) simp
  have loop: "DoubleLoop zeroHeap 59 60 0 (replicate 31 0) (replicate 63 True @ replicate 961 False) D
        = Inr (True, Suc 0, (replicate 31 0)[0 := 63], replicate 65 True @ replicate 959 False,
               D\<lparr>sectors := (sectors D)(0 := 1 # (replicate 31 0)[0 := 64]),
                  journal := journal D @ [WroteSector 0]\<rparr>)"
    if "diskSize D = 1024" for D
    by (subst DoubleLoop.simps)
       (simp add: FindAndSet_prefix' freshArray_zero nested layout WriteSector_def singleImage_def last that
             del: replicate.simps)
  show ?thesis
    by (simp add: Allocate_def AllocateSingleIndirect_def AllocateDoubleIndirect_def
          divRoundUp_def cquot_def crem_def asUnsigned_def
          layout NumClear_prefix blankHeader_data direct single loop FindAndSet_prefix' freshArray_zero
          WriteSector_def singleImage_def doubleImage_def blankDisk_def
          del: replicate.simps)
qed

lemma Allocate_29_abort:
  "Allocate heap blankHeader (replicate k True @ replicate 29 False) d (29 * int SectorSize)
     = Inl AssertionFailure"
proof -
  have direct: "claimSectors 28 0 0 29 (replicate 28 0) (replicate k True @ replicate 29 False)
        = Inr (28, map int [k..<k + 28], replicate (k + 28) True @ replicate (Suc 0) False)"
    using claimSectors_run[of 0 28 28 0 29 29 "replicate 28 0" k] by simp
  have ab: "claimSectors NumIndirect 0 NumDirect (asUnsigned 29) arr
              (replicate (Suc (k + 28)) True @ replicate 0 False) = Inl AssertionFailure" for arr
    by (rule claimSectors_abort) (simp_all add: layout asUnsigned_def)
  have single: "AllocateSingleIndirect heap H (replicate (k + 28) True @ replicate (Suc 0) False) d
        = Inl AssertionFailure" if "numSectors H = 29" for H
    unfolding AllocateSingleIndirect_def FindAndSet_prefix that
    by (simp only: prod.case ab sum.case)
  show ?thesis
    by (simp add: Allocate_def divRoundUp_def cquot_def crem_def asUnsigned_def layout
          NumClear_prefix blankHeader_data direct single
          del: replicate.simps)
qed

lemma Test_prefix: "Test (replicate k True @ replicate m False) s \<longleftrightarrow> 0 \<le> s \<and> s < int k"
  by (auto simp: Test_def nth_append)

lemma NumClear_update: "i < length bm \<Longrightarrow> bm ! i \<Longrightarrow> NumClear (bm[i := False]) = Suc (NumClear bm)"
proof (induction bm arbitrary: i)
  case Nil
  then show ?case by simp
next
  case (Cons b bs)
  then show ?case by (cases i) (auto simp: NumClear_def)
qed

lemma Clear_Test:
  assumes "Test bm s"
  shows "\<exists>bm'. Clear bm s = Inr bm' \<and> NumClear bm' = Suc (NumClear bm)
            \<and> (\<forall>t. Test bm' t \<longleftrightarrow> Test bm t \<and> t \<noteq> s)"
proof -
  have s: "0 \<le> s" "nat s < length bm" "bm ! nat s" using assms by (auto simp: Test_def)
  have "Test (bm[nat s := False]) t \<longleftrightarrow> Test bm t \<and> t \<noteq> s" for t
    using s by (auto simp: Test_def nth_list_update)
  then show ?thesis
    using assms s by (simp add: Clear_def NumClear_update)
qed

lemma clearEntries_ok:
  "\<lbrakk>n \<le> length arr; distinct (take n arr); \<forall>s \<in> set (take n arr). Test bm s\<rbrakk>
   \<Longrightarrow> \<exists>bm'. clearEntries arr n bm = Inr bm' \<and> NumClear bm' = NumClear bm + n
            \<and> (\<forall>t. Test bm' t \<longleftrightarrow> Test bm t \<and> t \<notin> set (take n arr))"
proof (induction n arbitrary: bm)
  case 0
  then show ?case by simp
next
  case (Suc n)
  have n: "n < length arr" using Suc.prems by simp
  have tk: "take (Suc n) arr = take n arr @ [arr ! n]" using n by (simp add: take_Suc_conv_app_nth)
  have t: "Test bm (arr ! n)" using Suc.prems tk by simp
  from Clear_Test[OF t] obtain bm1 where
    c: "Clear bm (arr ! n) = Inr bm1" "NumClear bm1 = Suc (NumClear bm)"
       "\<And>t. Test bm1 t \<longleftrightarrow> Test bm t \<and> t \<noteq> arr ! n" by blast
  have "\<exists>bm'. clearEntries arr n bm1 = Inr bm' \<and> NumClear bm' = NumClear bm1 + n
            \<and> (\<forall>t. Test bm' t \<longleftrightarrow> Test bm1 t \<and> t \<notin> set (take n arr))"
    using Suc.prems n tk c(3) by (intro Suc.IH) auto
  then obtain bm' where
    r: "clearEntries arr n bm1 = Inr bm'" "NumClear bm' = NumClear bm1 + n"
       "\<And>t. Test bm' t \<longleftrightarrow> Test bm1 t \<and> t \<notin> set (take n arr)" by blast
  show ?case
    using n t c r tk by auto
qed

lemma DeallocateDirect_ok:
  "\<lbrakk>c = min NumDirect (nat (numSectors hdr)); i + r = c; c \<le> length (dataSectors hdr);
    distinct (drop i (take c (dataSectors hdr)));
    \<forall>s \<in> set (drop i (take c (dataSectors hdr))). Test bm s\<rbrakk>
   \<Longrightarrow> \<exists>bm'. DeallocateDirect i hdr bm = Inr bm' \<and> NumClear bm' = NumClear bm + r
            \<and> (\<forall>t. Test bm' t \<longleftrightarrow> Test bm t \<and> t \<notin> set (drop i (take c (dataSectors hdr))))"
proof (induction r arbitrary: i bm)
  case 0
  then have "(int i < numSectors hdr \<and> i < NumDirect) = False" by auto
  then have "DeallocateDirect i hdr bm = Inr bm"
    by (subst DeallocateDirect.simps) (simp only: if_False)
  moreover have "drop i (take c (dataSectors hdr)) = []" using 0 by simp
  ultimately show ?case by simp
next
  case (Suc r)
  let ?ds = "dataSectors hdr"
  have i: "i < c" "i < length ?ds" using Suc.prems by auto
  have cond: "int i < numSectors hdr \<and> i < NumDirect" using Suc.prems by auto
  have dr: "drop i (take c ?ds) = ?ds ! i # drop (Suc i) (take c ?ds)"
    using i Cons_nth_drop_Suc[of i "take c ?ds"] by simp
  have t: "Test bm (?ds ! i)" using Suc.prems dr by simp
  from Clear_Test[OF t] obtain bm1 where
    c: "Clear bm (?ds ! i) = Inr bm1" "NumClear bm1 = Suc (NumClear bm)"
       "\<And>t. Test bm1 t \<longleftrightarrow> Test bm t \<and> t \<noteq> ?ds ! i" by blast
  have "\<exists>bm'. DeallocateDirect (Suc i) hdr bm1 = Inr bm' \<and> NumClear bm' = NumClear bm1 + r
            \<and> (\<forall>t. Test bm' t \<longleftrightarrow> Test bm1 t \<and> t \<notin> set (drop (Suc i) (take c ?ds)))"
    using Suc.prems dr c(3) by (intro Suc.IH) auto
  then obtain bm' where
    r: "DeallocateDirect (Suc i) hdr bm1 = Inr bm'" "NumClear bm' = NumClear bm1 + r"
       "\<And>t. Test bm' t \<longleftrightarrow> Test bm1 t \<and> t \<notin> set (drop (Suc i) (take c ?ds))" by blast
  have "DeallocateDirect i hdr bm = DeallocateDirect (Suc i) hdr bm1"
    using cond t c(1) by (subst DeallocateDirect.simps) simp
  then show ?case
    using r c dr by auto
qed

lemma in_set_map_int_upt: "s \<in> set (map int [a..<b]) \<longleftrightarrow> int a \<le> s \<and> s < int b"
proof
  assume "s \<in> set (map int [a..<b])"
  then show "int a \<le> s \<and> s < int b" by auto
next
  assume "int a \<le> s \<and> s < int b"
  then have "nat s \<in> {a..<b}" "int (nat s) = s" by auto
  then show "s \<in> set (map int [a..<b])" by (metis image_eqI set_map set_upt)
qed

lemma distinct_map_int_upt: "distinct (map int [a..<b])"
  by (simp add: distinct_map)

section \<open>Facts about directories, path resolution and the composite operations\<close>

lemma FindIndex_newDirectory: "FindIndex (newDirectory n) nm = None"
  by (induction n) (simp_all add: newDirectory_def emptyEntry_def)

lemma FindIndex_append:
  "FindIndex (xs @ ys) nm =
     (case FindIndex xs nm of
        Some i \<Rightarrow> Some i
      | None \<Rightarrow> map_option (\<lambda>i. length xs + i) (FindIndex ys nm))"
proof (induction xs)
  case Nil
  then show ?case by (cases "FindIndex ys nm") simp_all
next
  case (Cons e xs)
  then show ?case by (cases "FindIndex ys nm") (auto split: option.splits)
qed

lemma Find_root:
  "Directory_Find (dirEntry ''a'' 5 IS_DIR # dirEntry ''f'' 7 IS_FILE # newDirectory 62) nm
     = (if nm = ''a'' then 5 else if nm = ''f'' then 7 else -1)"
  by (simp add: Directory_Find_def FindIndex_newDirectory dirEntry_def)

lemma Find_a:
  "Directory_Find (dirEntry ''g'' 9 IS_FILE # newDirectory 63) nm = (if nm = ''g'' then 9 else -1)"
  by (simp add: Directory_Find_def FindIndex_newDirectory dirEntry_def)

lemma split1: "splitPath ''/a/x'' = Inr [''a'', ''x'']"
  by (simp add: splitPath_def)

lemma split2: "splitPath ''/f'' = Inr [''f'']"
  by (simp add: splitPath_def)



lemma changeToRightDir_keeps:
  "\<lbrakk>currentDirectory fs = dirFiles (disk fs) (currentDirectoryFile fs);
    changeToRightDir fs arr = (ok, fs')\<rbrakk>
   \<Longrightarrow> sectors (disk fs') = sectors (disk fs)
       \<and> dirFiles (disk fs') = dirFiles (disk fs)
       \<and> mapFile (disk fs') = mapFile (disk fs)
       \<and> diskSize (disk fs') = diskSize (disk fs)
       \<and> openedTable fs' = openedTable fs
       \<and> currentDirectory fs' = dirFiles (disk fs') (currentDirectoryFile fs')"
proof (induction arr arbitrary: fs)
  case Nil
  then show ?case by simp
next
  case (Cons a arr)
  show ?case
  proof (cases "Directory_Find (currentDirectory fs) a = -1")
    case True
    with Cons.prems show ?thesis by simp
  next
    case False
    let ?d = "Directory_WriteBack (disk fs) (currentDirectoryFile fs) (currentDirectory fs)"
    let ?fs1 = "fs\<lparr>disk := ?d,
                   currentDirectoryFile := Directory_Find (currentDirectory fs) a,
                   currentDirectory := Directory_FetchFrom ?d (Directory_Find (currentDirectory fs) a)\<rparr>"
    have same: "dirFiles ?d = dirFiles (disk fs)"
      using Cons.prems(1) by (simp add: Directory_WriteBack_def)
    have step: "changeToRightDir ?fs1 arr = (ok, fs')"
      using Cons.prems(2) False by simp
    have clean: "currentDirectory ?fs1 = dirFiles (disk ?fs1) (currentDirectoryFile ?fs1)"
      by (simp add: Directory_FetchFrom_def)
    have d: "sectors ?d = sectors (disk fs)" "mapFile ?d = mapFile (disk fs)"
        "diskSize ?d = diskSize (disk fs)"
      by (simp_all add: Directory_WriteBack_def)
    have sel: "disk ?fs1 = ?d" "openedTable ?fs1 = openedTable fs"
      by simp_all
    from Cons.IH[OF clean step] show ?thesis
      unfolding sel d same .
  qed
qed

lemma DoubleLoop_False:
  "DoubleLoop heap sector_counter wanted nums pointers freeMap d = Inr (False, r)
   \<Longrightarrow> int (sector_counter + (NumIndirect - 1 - nums) * NumIndirect) \<le> wanted"
proof (induction heap sector_counter wanted nums pointers freeMap d rule: DoubleLoop.induct)
  case (1 heap sector_counter wanted nums pointers freeMap d)
  show ?case
  proof (cases "int sector_counter \<le> wanted")
    case False
    with "1.prems" show ?thesis by (subst (asm) DoubleLoop.simps) simp
  next
    case cond: True
    obtain p freeMap1 where fs: "FindAndSet freeMap = (p, freeMap1)" by (cases "FindAndSet freeMap")
    show ?thesis
    proof (cases "claimSectors NumIndirect 0 sector_counter wanted (freshArray (heap (2 + nums))) freeMap1")
      case (Inl f)
      with "1.prems" cond fs show ?thesis by (subst (asm) DoubleLoop.simps) simp
    next
      case (Inr t)
      obtain n arr freeMap2 where t: "t = (n, arr, freeMap2)" by (cases t)
      show ?thesis
      proof (cases "nums + 1 \<ge> NumIndirect")
        case True
        then have "NumIndirect - 1 - nums = 0" by simp
        with cond show ?thesis by simp
      next
        case last: False
        show ?thesis
        proof (cases "WriteSector d ((pointers[nums := p]) ! (nums + 1))
                        (singleImage \<lparr>s_numsSector = int n, s_dataSectors = arr\<rparr>)")
          case (Inl f)
          with "1.prems" cond fs Inr t last show ?thesis by (subst (asm) DoubleLoop.simps) simp
        next
          case w: (Inr d')
          have rec: "DoubleLoop heap (sector_counter + NumIndirect) wanted (nums + 1)
                       (pointers[nums := p]) freeMap2 d' = Inr (False, r)"
            using "1.prems" cond fs Inr t last w by (subst (asm) DoubleLoop.simps) simp
          have "int (sector_counter + NumIndirect + (NumIndirect - 1 - (nums + 1)) * NumIndirect) \<le> wanted"
            using "1.IH"[OF cond fs[symmetric] Inr[unfolded t] refl refl _ w rec] last
            by simp
          moreover have "(NumIndirect - 1 - nums) * NumIndirect
                           = NumIndirect + (NumIndirect - 1 - (nums + 1)) * NumIndirect"
          proof -
            have "NumIndirect - 1 - nums = Suc (NumIndirect - 1 - (nums + 1))" using last by simp
            then show ?thesis by simp
          qed
          ultimately show ?thesis by simp
        qed
      qed
    qed
  qed
qed

lemma AllocateSingleIndirect_numSectors:
  "AllocateSingleIndirect heap hdr freeMap d = Inr (ok, hdr', freeMap', d')
   \<Longrightarrow> numSectors hdr' = numSectors hdr"
  by (auto simp: AllocateSingleIndirect_def split: prod.splits sum.splits)

lemma AllocateDoubleIndirect_False:
  "AllocateDoubleIndirect heap hdr freeMap d = Inr (False, r)
   \<Longrightarrow> int (NumDirect + NumIndirect * NumIndirect) \<le> numSectors hdr"
proof -
  assume a: "AllocateDoubleIndirect heap hdr freeMap d = Inr (False, r)"
  obtain s freeMap1 where f: "FindAndSet freeMap = (s, freeMap1)" by (cases "FindAndSet freeMap")
  from a f obtain r' where
    "DoubleLoop heap (NumIndirect + NumDirect) (numSectors hdr) 0 (freshArray (heap 1)) freeMap1 d
       = Inr (False, r')"
    by (auto simp: AllocateDoubleIndirect_def split: sum.splits if_splits)
  from DoubleLoop_False[OF this] show ?thesis
    by (simp add: layout)
qed

lemma Allocate_False:
  assumes "Allocate heap this freeMap d fileSize = Inr (False, hdr, freeMap', d')"
    and "divRoundUp fileSize (int SectorSize) < int (NumDirect + NumIndirect * NumIndirect)"
  shows "d' = d"
proof -
  let ?hdr = "this\<lparr>numBytes := fileSize,
                     numSectors := divRoundUp fileSize (int SectorSize),
                     SingleIndirectSector := -1,
                     DoubleIndirectSector := -1\<rparr>"
  show ?thesis
  proof (cases "int (NumClear freeMap) < numSectors ?hdr")
    case True
    with assms(1) show ?thesis by (simp add: Allocate_def)
  next
    case pre: False
    show ?thesis
    proof (cases "claimSectors NumDirect 0 0 (numSectors ?hdr) (dataSectors ?hdr) freeMap")
      case (Inl f)
      with assms(1) pre show ?thesis by (simp add: Allocate_def)
    next
      case (Inr t)
      obtain sectorCounter arr freeMap1 where t: "t = (sectorCounter, arr, freeMap1)" by (cases t)
      show ?thesis
      proof (cases "int sectorCounter = numSectors ?hdr")
        case True
        with assms(1) pre Inr t show ?thesis by (simp add: Allocate_def)
      next
        case more: False
        show ?thesis
        proof (cases "AllocateSingleIndirect heap (?hdr\<lparr>dataSectors := arr\<rparr>) freeMap1 d")
          case (Inl f)
          with assms(1) pre Inr t more show ?thesis by (simp add: Allocate_def)
        next
          case si: (Inr u)
          obtain ok hdr2 freeMap2 d2 where u: "u = (ok, hdr2, freeMap2, d2)" by (cases u)
          show ?thesis
          proof (cases ok)
            case True
            with assms(1) pre Inr t more si u show ?thesis by (simp add: Allocate_def)
          next
            case False
            with assms(1) pre Inr t more si u
            have "AllocateDoubleIndirect heap hdr2 freeMap2 d2 = Inr (False, hdr, freeMap', d')"
              by (simp add: Allocate_def)
            from AllocateDoubleIndirect_False[OF this]
            have "int (NumDirect + NumIndirect * NumIndirect) \<le> numSectors hdr2" .
            moreover have "numSectors hdr2 = divRoundUp fileSize (int SectorSize)"
              using AllocateSingleIndirect_numSectors[OF si[unfolded u]] by simp
            ultimately show ?thesis using assms(2) by (simp add: layout)
          qed
        qed
      qed
    qed
  qed
qed

lemma WriteSector_keeps:
  "WriteSector d s img = Inr d'
   \<Longrightarrow> dirFiles d' = dirFiles d \<and> mapFile d' = mapFile d \<and> diskSize d' = diskSize d"
  by (auto simp: WriteSector_def split: if_splits)

lemma DoubleLoop_keeps:
  "DoubleLoop heap sector_counter wanted nums pointers freeMap d = Inr (b, n', p', bm', d')
   \<Longrightarrow> dirFiles d' = dirFiles d \<and> mapFile d' = mapFile d \<and> diskSize d' = diskSize d"
proof (induction heap sector_counter wanted nums pointers freeMap d rule: DoubleLoop.induct)
  case (1 heap sector_counter wanted nums pointers freeMap d)
  show ?case
  proof (cases "int sector_counter \<le> wanted")
    case False
    with "1.prems" show ?thesis by (subst (asm) DoubleLoop.simps) simp
  next
    case cond: True
    obtain p freeMap1 where fs: "FindAndSet freeMap = (p, freeMap1)" by (cases "FindAndSet freeMap")
    show ?thesis
    proof (cases "claimSectors NumIndirect 0 sector_counter wanted (freshArray (heap (2 + nums))) freeMap1")
      case (Inl f)
      with "1.prems" cond fs show ?thesis by (subst (asm) DoubleLoop.simps) simp
    next
      case (Inr t)
      obtain n arr freeMap2 where t: "t = (n, arr, freeMap2)" by (cases t)
      show ?thesis
      proof (cases "nums + 1 \<ge> NumIndirect")
        case True
        with "1.prems" cond fs Inr t show ?thesis by (subst (asm) DoubleLoop.simps) simp
      next
        case last: False
        show ?thesis
        proof (cases "WriteSector d ((pointers[nums := p]) ! (nums + 1))
                        (singleImage \<lparr>s_numsSector = int n, s_dataSectors = arr\<rparr>)")
          case (Inl f)
          with "1.prems" cond fs Inr t last show ?thesis by (subst (asm) DoubleLoop.simps) simp
        next
          case w: (Inr d1)
          have rec: "DoubleLoop heap (sector_counter + NumIndirect) wanted (nums + 1)
                       (pointers[nums := p]) freeMap2 d1 = Inr (b, n', p', bm', d')"
            using "1.prems" cond fs Inr t last w by (subst (asm) DoubleLoop.simps) simp
          from "1.IH"[OF cond fs[symmetric] Inr[unfolded t] refl refl _ w rec] last
          have "dirFiles d' = dirFiles d1 \<and> mapFile d' = mapFile d1 \<and> diskSize d' = diskSize d1"
            by simp
          with WriteSector_keeps[OF w] show ?thesis by simp
        qed
      qed
    qed
  qed
qed

lemma AllocateSingleIndirect_keeps:
  "AllocateSingleIndirect heap hdr freeMap d = Inr (ok, hdr', freeMap', d')
   \<Longrightarrow> dirFiles d' = dirFiles d \<and> mapFile d' = mapFile d \<and> diskSize d' = diskSize d"
  by (auto simp: AllocateSingleIndirect_def WriteSector_def split: prod.splits sum.splits if_splits)

lemma AllocateDoubleIndirect_keeps:
  assumes "AllocateDoubleIndirect heap hdr freeMap d = Inr (ok, hdr', freeMap', d')"
  shows "dirFiles d' = dirFiles d \<and> mapFile d' = mapFile d \<and> diskSize d' = diskSize d"
proof -
  obtain s freeMap1 where f: "FindAndSet freeMap = (s, freeMap1)" by (cases "FindAndSet freeMap")
  from assms f obtain finished nums pointers freeMap2 d1 where
    l: "DoubleLoop heap (NumIndirect + NumDirect) (numSectors hdr) 0 (freshArray (heap 1)) freeMap1 d
          = Inr (finished, nums, pointers, freeMap2, d1)"
    and r: "d' = d1 \<or> WriteSector d1 s (doubleImage \<lparr>d_numsSector = int nums, d_pointers = pointers\<rparr>)
                      = Inr d'"
    by (auto simp: AllocateDoubleIndirect_def split: sum.splits if_splits)
  from r WriteSector_keeps
  have "dirFiles d' = dirFiles d1 \<and> mapFile d' = mapFile d1 \<and> diskSize d' = diskSize d1"
    by blast
  with DoubleLoop_keeps[OF l] show ?thesis by simp
qed

lemma Allocate_keeps:
  assumes "Allocate heap this freeMap d fileSize = Inr (ok, hdr, freeMap', d')"
  shows "dirFiles d' = dirFiles d \<and> mapFile d' = mapFile d \<and> diskSize d' = diskSize d"
proof -
  let ?hdr = "this\<lparr>numBytes := fileSize,
                     numSectors := divRoundUp fileSize (int SectorSize),
                     SingleIndirectSector := -1,
                     DoubleIndirectSector := -1\<rparr>"
  from assms consider "d' = d"
    | arr freeMap1 ok1 hdr1 where
        "AllocateSingleIndirect heap (?hdr\<lparr>dataSectors := arr\<rparr>) freeMap1 d
           = Inr (ok1, hdr1, freeMap', d')"
    | arr freeMap1 ok1 hdr1 freeMap2 d1 where
        "AllocateSingleIndirect heap (?hdr\<lparr>dataSectors := arr\<rparr>) freeMap1 d
           = Inr (ok1, hdr1, freeMap2, d1)"
        "AllocateDoubleIndirect heap hdr1 freeMap2 d1 = Inr (ok, hdr, freeMap', d')"
    by (auto simp: Allocate_def Let_def split: prod.splits sum.splits if_splits)
  then show ?thesis
  proof cases
    case 1
    then show ?thesis by simp
  next
    case 2
    from AllocateSingleIndirect_keeps[OF this] show ?thesis .
  next
    case 3
    from AllocateSingleIndirect_keeps[OF 3(1)] AllocateDoubleIndirect_keeps[OF 3(2)]
    show ?thesis by simp
  qed
qed

lemma Allocate_precheck_result:
  "int (NumClear freeMap) < divRoundUp fileSize (int SectorSize)
   \<Longrightarrow> Allocate heap this freeMap d fileSize
       = Inr (False,
              this\<lparr>numBytes := fileSize, numSectors := divRoundUp fileSize (int SectorSize),
                   SingleIndirectSector := -1, DoubleIndirectSector := -1\<rparr>,
              freeMap, d)"
  by (simp add: Allocate_def Let_def)

lemma Allocate_refused:
  assumes "Allocate heap this freeMap d fileSize = Inr (False, hdr, freeMap', d')"
  shows "d' = d
         \<or> (int (NumDirect + NumIndirect * NumIndirect) \<le> divRoundUp fileSize (int SectorSize)
            \<and> divRoundUp fileSize (int SectorSize) \<le> int (NumClear freeMap))"
proof (cases "divRoundUp fileSize (int SectorSize) < int (NumDirect + NumIndirect * NumIndirect)")
  case True
  from Allocate_False[OF assms True] show ?thesis by simp
next
  case large: False
  show ?thesis
  proof (cases "int (NumClear freeMap) < divRoundUp fileSize (int SectorSize)")
    case True
    from Allocate_precheck_result[OF True, of heap this d] assms show ?thesis by simp
  next
    case False
    with large show ?thesis by simp
  qed
qed

lemma changeToRightDir_journal:
  "changeToRightDir fs arr = (ok, fs')
   \<Longrightarrow> \<exists>ws. journal (disk fs') = journal (disk fs) @ ws \<and> set ws \<subseteq> range WroteDirectory"
proof (induction arr arbitrary: fs)
  case Nil
  then show ?case by simp
next
  case (Cons a arr)
  show ?case
  proof (cases "Directory_Find (currentDirectory fs) a = -1")
    case True
    with Cons.prems show ?thesis by simp
  next
    case False
    let ?d = "Directory_WriteBack (disk fs) (currentDirectoryFile fs) (currentDirectory fs)"
    let ?fs1 = "fs\<lparr>disk := ?d,
                   currentDirectoryFile := Directory_Find (currentDirectory fs) a,
                   currentDirectory := Directory_FetchFrom ?d (Directory_Find (currentDirectory fs) a)\<rparr>"
    have step: "changeToRightDir ?fs1 arr = (ok, fs')"
      using Cons.prems False by simp
    from Cons.IH[OF step] obtain ws where
      ws: "journal (disk fs') = journal (disk ?fs1) @ ws" "set ws \<subseteq> range WroteDirectory"
      by blast
    have "journal (disk ?fs1) = journal (disk fs) @ [WroteDirectory (currentDirectoryFile fs)]"
      by (simp add: Directory_WriteBack_def)
    with ws have "journal (disk fs') = journal (disk fs) @ (WroteDirectory (currentDirectoryFile fs) # ws)"
      "set (WroteDirectory (currentDirectoryFile fs) # ws) \<subseteq> range WroteDirectory"
      by auto
    then show ?thesis by blast
  qed
qed

lemma Create_parts:
  assumes "Create heap fs name initialSize = Inr (b, fs')"
  shows "splitPath name = Inr (strtok [] name) \<and> strtok [] name \<noteq> []
         \<and> fst (changeToRightDir fs (butlast (strtok [] name)))"
  using assms
  by (auto simp: Create_def splitPath_def split: sum.splits if_splits prod.splits bool.splits)

lemma Create_refusal_disk:
  assumes "Create heap fs name initialSize = Inr (False, fs')"
    and "changeToRightDir fs (butlast (strtok [] name)) = (ok, fs1)"
    and "FindAndSet (mapFile (disk fs1)) = (sector, freeMap)"
    and "dir = dirFiles (disk fs1) (currentDirectoryFile fs1)"
  shows "disk fs' = disk fs1
         \<or> (Directory_Find dir (last (strtok [] name)) = -1 \<and> sector \<noteq> -1
            \<and> fst (Directory_Add dir (last (strtok [] name)) sector IS_FILE)
            \<and> int (NumDirect + NumIndirect * NumIndirect) \<le> divRoundUp initialSize (int SectorSize)
            \<and> divRoundUp initialSize (int SectorSize) \<le> int (NumClear freeMap))"
proof -
  from Create_parts[OF assms(1)] assms(2) have sp: "splitPath name = Inr (strtok [] name)"
    "strtok [] name \<noteq> []" "ok" by simp_all
  show ?thesis
    using assms sp
    by (auto simp: Create_def Let_def resetRootDir_def Directory_FetchFrom_def
          split: prod.splits sum.splits if_splits bool.splits
          dest: Allocate_refused)
qed

lemma Create_success_disk:
  assumes "Create heap fs name initialSize = Inr (True, fs')"
    and "changeToRightDir fs (butlast (strtok [] name)) = (ok, fs1)"
    and "FindAndSet (mapFile (disk fs1)) = (sector, freeMap)"
  shows "\<exists>hdr freeMap1 d1.
           Allocate (\<lambda>k. heap (Suc k)) (freshHeader (heap 0)) freeMap (disk fs1) initialSize
             = Inr (True, hdr, freeMap1, d1)
         \<and> disk fs' =
             d1\<lparr>sectors := (sectors d1)(sector := headerImage hdr),
                dirFiles := (dirFiles d1)
                   (currentDirectoryFile fs1 :=
                      snd (Directory_Add (dirFiles (disk fs1) (currentDirectoryFile fs1))
                             (last (strtok [] name)) sector IS_FILE)),
                mapFile := freeMap1,
                journal := journal d1 @ [WroteSector sector,
                                         WroteDirectory (currentDirectoryFile fs1), WroteBitmap]\<rparr>"
proof -
  from Create_parts[OF assms(1)] assms(2) have sp: "splitPath name = Inr (strtok [] name)"
    "strtok [] name \<noteq> []" "ok" by simp_all
  show ?thesis
    using assms sp
    by (auto simp: Create_def Let_def resetRootDir_def FileHeader_WriteBack_def
          Bitmap_WriteBack_def Directory_WriteBack_def Directory_FetchFrom_def WriteSector_def
          split: prod.splits sum.splits if_splits bool.splits)
qed

lemma absent_component_aborts:
  assumes "splitPath name = Inr arr" "arr \<noteq> []" "\<not> fst (changeToRightDir fs (butlast arr))"
  shows "Create heap fs name initialSize = Inl AssertionFailure"
    and "Open fs name = Inl AssertionFailure"
    and "Remove fs name = Inl AssertionFailure"
  using assms
  by (auto simp: Create_def Open_def Remove_def split: prod.splits bool.splits)

lemma Open_not_found:
  assumes "splitPath name = Inr arr" "arr \<noteq> []"
    and "changeToRightDir fs (butlast arr) = (True, fs1)"
    and "Directory_Find (dirFiles (disk fs1) (currentDirectoryFile fs1)) (last arr) = -1"
  shows "\<exists>fs'. Open fs name = Inr (None, fs') \<and> disk fs' = disk fs1"
  using assms by (simp add: Open_def Let_def Directory_FetchFrom_def resetRootDir_def)

lemma Remove_not_found:
  assumes "splitPath name = Inr arr" "arr \<noteq> []"
    and "changeToRightDir fs (butlast arr) = (True, fs1)"
    and "Directory_Find (dirFiles (disk fs1) (currentDirectoryFile fs1)) name = -1"
  shows "\<exists>fs'. Remove fs name = Inr (False, fs') \<and> disk fs' = disk fs1"
  using assms by (simp add: Remove_def Let_def Directory_FetchFrom_def)

lemma Create_refused:
  assumes "splitPath name = Inr arr" "arr \<noteq> []"
    and "changeToRightDir fs (butlast arr) = (True, fs1)"
    and "dir = dirFiles (disk fs1) (currentDirectoryFile fs1)"
    and "FindAndSet (mapFile (disk fs1)) = (sector, freeMap)"
    and "Directory_Find dir (last arr) \<noteq> -1 \<or> sector = -1
         \<or> \<not> fst (Directory_Add dir (last arr) sector IS_FILE)
         \<or> int (NumClear freeMap) < divRoundUp initialSize (int SectorSize)"
  shows "\<exists>fs'. Create heap fs name initialSize = Inr (False, fs') \<and> disk fs' = disk fs1"
proof (cases "Directory_Find dir (last arr) \<noteq> -1 \<or> sector = -1
         \<or> \<not> fst (Directory_Add dir (last arr) sector IS_FILE)")
  case True
  with assms(1-5) show ?thesis
    by (auto simp: Create_def Let_def Directory_FetchFrom_def resetRootDir_def
          split: prod.splits bool.splits)
next
  case False
  with assms(6) have pre: "int (NumClear freeMap) < divRoundUp initialSize (int SectorSize)"
    by blast
  from Allocate_precheck_result[OF pre] obtain hdr where
    "Allocate (\<lambda>k. heap (Suc k)) (freshHeader (heap 0)) freeMap (disk fs1) initialSize
       = Inr (False, hdr, freeMap, disk fs1)"
    by blast
  with False assms(1-5) show ?thesis
    by (auto simp: Create_def Let_def Directory_FetchFrom_def resetRootDir_def
          split: prod.splits bool.splits)
qed

lemma sampleFS_fields:
  "disk sampleFS = sampleDisk"
  "currentDirectoryFile sampleFS = 1"
  "currentDirectory sampleFS = dirEntry ''a'' 5 IS_DIR # dirEntry ''f'' 7 IS_FILE # newDirectory 62"
  "openedTable sampleFS = Map.empty"
  by (simp_all add: sampleFS_def sampleDisk_def Directory_FetchFrom_def DirectorySector_def)

lemma sampleDisk_fields:
  "dirFiles sampleDisk 1 = dirEntry ''a'' 5 IS_DIR # dirEntry ''f'' 7 IS_FILE # newDirectory 62"
  "dirFiles sampleDisk 5 = dirEntry ''g'' 9 IS_FILE # newDirectory 63"
  "mapFile sampleDisk = replicate 16 True @ replicate 1008 False"
  "journal sampleDisk = []"
  "diskSize sampleDisk = 1024"
  "sectors sampleDisk = (\<lambda>_. replicate 32 0)"
  by (simp_all add: sampleDisk_def blankDisk_def DirectorySector_def)

lemma sampleFS_clean:
  "currentDirectory sampleFS = Directory_FetchFrom (disk sampleFS) (currentDirectoryFile sampleFS)"
  by (simp add: sampleFS_fields sampleDisk_fields Directory_FetchFrom_def)

lemma firstFree_newDirectory: "0 < n \<Longrightarrow> firstFree (newDirectory n) = Some 0"
  by (cases n) (simp_all add: newDirectory_def emptyEntry_def)

lemma change_a:
  "changeToRightDir sampleFS [''a'']
     = (True, sampleFS\<lparr>disk := Directory_WriteBack sampleDisk 1 (currentDirectory sampleFS),
                       currentDirectoryFile := 5,
                       currentDirectory := dirEntry ''g'' 9 IS_FILE # newDirectory 63\<rparr>)"
  by (simp add: sampleFS_fields sampleDisk_fields Find_root Directory_FetchFrom_def
        Directory_WriteBack_def)

lemma change_zz: "changeToRightDir sampleFS [''zz''] = (False, sampleFS)"
  by (simp add: sampleFS_fields Find_root)

lemma Create_existing:
  "\<exists>fs'. Create heap sampleFS ''/a/g'' n = Inr (False, fs')
         \<and> journal (disk fs') = [WroteDirectory 1]"
  by (simp add: Create_def splitPath_def change_a Let_def Directory_FetchFrom_def Find_a
        resetRootDir_def Directory_WriteBack_def sampleDisk_fields sampleFS_fields
        del: changeToRightDir.simps)

lemma freshHeader_zero: "freshHeader (zeroHeap k) = blankHeader"
proof -
  have "zeroHeap k = (\<lambda>_. 0)" by (simp add: fun_eq_iff zeroHeap_def)
  then show ?thesis
    by (simp add: freshHeader_def blankHeader_def layout map_replicate_const)
qed

lemma Allocate_one_sector:
  "Allocate heap blankHeader (replicate 17 True @ replicate 1007 False) d 100
     = Inr (True,
            blankHeader\<lparr>numBytes := 100, numSectors := 1,
                         SingleIndirectSector := -1, DoubleIndirectSector := -1,
                         dataSectors := 17 # replicate 27 0\<rparr>,
            replicate 18 True @ replicate 1006 False, d)"
proof -
  have direct: "claimSectors 28 0 0 1 (replicate 28 0) (replicate 17 True @ replicate 1007 False)
        = Inr (Suc 0, 17 # replicate 27 0, replicate 18 True @ replicate 1006 False)"
    using claimSectors_run[of 0 1 28 0 1 1007 "replicate 28 0" 17] by simp
  show ?thesis
    by (simp add: Allocate_def divRoundUp_def cquot_def crem_def asUnsigned_def layout
          NumClear_prefix blankHeader_data direct
          del: replicate.simps)
qed

lemma dirA_slots:
  "FindIndex (dirEntry ''g'' 9 IS_FILE # newDirectory 63) nm = (if nm = ''g'' then Some 0 else None)"
  "firstFree (dirEntry ''g'' 9 IS_FILE # newDirectory 63) = Some (Suc 0)"
  by (simp_all add: FindIndex_newDirectory firstFree_newDirectory dirEntry_def)

lemma Create_new:
  "\<exists>fs'. Create zeroHeap sampleFS ''/a/h'' 100 = Inr (True, fs')"
  by (simp add: Create_def splitPath_def change_a Let_def Directory_FetchFrom_def Find_a
        Directory_Add_def dirA_slots
        FindAndSet_prefix' freshHeader_zero Allocate_one_sector FileHeader_WriteBack_def
        WriteSector_def Directory_WriteBack_def sampleDisk_fields sampleFS_fields
        del: replicate.simps changeToRightDir.simps FindIndex.simps firstFree.simps)

lemma Open_missing_leaf: "Open sampleFS ''/nofile'' = Inr (None, sampleFS)"
  by (simp add: Open_def splitPath_def Let_def Directory_FetchFrom_def resetRootDir_def
        sampleFS_fields sampleDisk_fields Find_root DirectorySector_def)

lemma Remove_missing_leaf:
  "\<exists>fs'. Remove sampleFS ''/a/x'' = Inr (False, fs') \<and> currentDirectoryFile fs' = 5"
  by (simp add: Remove_def splitPath_def change_a Let_def Directory_FetchFrom_def Find_a
        Directory_WriteBack_def sampleDisk_fields sampleFS_fields
        del: changeToRightDir.simps)

subsection \<open>A file beyond the three tiers\<close>

text \<open>
  A file of \<^verbatim>\<open>NumDirect + NumIndirect * NumIndirect\<close> = 989 sectors. With fresh memory
  of zeros every nested block but the last is written to sector 0. On the disk of 2048
  sectors \<^verbatim>\<open>AllocateDoubleIndirect\<close> fills 30 nested blocks and returns \<^verbatim>\<open>FALSE\<close>
  at the thirty-first pointer, after the single-indirect block was written to sector 45.
\<close>

lemma DoubleLoop_full_block:
  assumes "int (sector_counter + NumIndirect) \<le> wanted"
    and "NumIndirect + 1 \<le> m"
    and "nums + 1 < NumIndirect"
    and "pointers ! (nums + 1) = 0"
    and "0 < diskSize d"
  shows "DoubleLoop heap sector_counter wanted nums pointers
           (replicate k True @ replicate m False) d
         = DoubleLoop heap (sector_counter + NumIndirect) wanted (nums + 1)
             (pointers[nums := int k])
             (replicate (k + (NumIndirect + 1)) True @ replicate (m - (NumIndirect + 1)) False)
             (d\<lparr>sectors := (sectors d)
                    (0 := singleImage \<lparr>s_numsSector = int NumIndirect,
                                       s_dataSectors = map int [Suc k..<Suc k + NumIndirect]\<rparr>),
                journal := journal d @ [WroteSector 0]\<rparr>)"
proof -
  have fs: "FindAndSet (replicate k True @ replicate m False)
              = (int k, replicate (Suc k) True @ replicate (m - 1) False)"
    using assms(2) by (intro FindAndSet_prefix') simp
  have cl: "claimSectors NumIndirect 0 sector_counter wanted (freshArray (heap (2 + nums)))
              (replicate (Suc k) True @ replicate (m - 1) False)
            = Inr (0 + NumIndirect,
                   take 0 (freshArray (heap (2 + nums))) @ map int [Suc k..<Suc k + NumIndirect]
                     @ drop (0 + NumIndirect) (freshArray (heap (2 + nums))),
                   replicate (Suc k + NumIndirect) True @ replicate (m - 1 - NumIndirect) False)"
    using assms(1,2) by (intro claimSectors_run) (simp_all add: freshArray_def)
  have arr: "take 0 (freshArray (heap (2 + nums))) @ map int [Suc k..<Suc k + NumIndirect]
                     @ drop (0 + NumIndirect) (freshArray (heap (2 + nums)))
             = map int [Suc k..<Suc k + NumIndirect]"
    by (simp add: freshArray_def)
  have tgt: "(pointers[nums := int k]) ! (nums + 1) = 0"
    using assms(4) by simp
  have cond: "int sector_counter \<le> wanted" using assms(1) by simp
  have w: "WriteSector d 0 img
            = Inr (d\<lparr>sectors := (sectors d)(0 := img), journal := journal d @ [WroteSector 0]\<rparr>)" for img
    using assms(5) by (simp add: WriteSector_def)
  have bm: "replicate (Suc k + NumIndirect) True @ replicate (m - 1 - NumIndirect) False
            = replicate (k + (NumIndirect + 1)) True @ replicate (m - (NumIndirect + 1)) False"
    by simp
  show ?thesis
    apply (subst DoubleLoop.simps)
    apply (simp only: cond if_True fs prod.case cl arr sum.case tgt w bm)
    using assms(3) apply simp
    done
qed

lemma DoubleLoop_full_blocks:
  assumes "int (sector_counter + n * NumIndirect) \<le> wanted"
    and "n * (NumIndirect + 1) \<le> m"
    and "nums + n < NumIndirect"
    and "\<And>i. nums < i \<Longrightarrow> i < NumIndirect \<Longrightarrow> pointers ! i = 0"
    and "0 < diskSize d"
  shows "\<exists>pointers' d'.
           DoubleLoop heap sector_counter wanted nums pointers
             (replicate k True @ replicate m False) d
           = DoubleLoop heap (sector_counter + n * NumIndirect) wanted (nums + n) pointers'
               (replicate (k + n * (NumIndirect + 1)) True
                  @ replicate (m - n * (NumIndirect + 1)) False) d'
           \<and> (\<forall>i. nums + n < i \<and> i < NumIndirect \<longrightarrow> pointers' ! i = 0)
           \<and> diskSize d' = diskSize d
           \<and> (\<forall>s. s \<noteq> 0 \<longrightarrow> sectors d' s = sectors d s)
           \<and> dirFiles d' = dirFiles d \<and> mapFile d' = mapFile d"
  using assms
proof (induction n arbitrary: sector_counter nums pointers k m d)
  case 0
  then show ?case by auto
next
  case (Suc n)
  let ?d1 = "d\<lparr>sectors := (sectors d)
                    (0 := singleImage \<lparr>s_numsSector = int NumIndirect,
                                       s_dataSectors = map int [Suc k..<Suc k + NumIndirect]\<rparr>),
                journal := journal d @ [WroteSector 0]\<rparr>"
  have one: "DoubleLoop heap sector_counter wanted nums pointers
           (replicate k True @ replicate m False) d
         = DoubleLoop heap (sector_counter + NumIndirect) wanted (nums + 1)
             (pointers[nums := int k])
             (replicate (k + (NumIndirect + 1)) True @ replicate (m - (NumIndirect + 1)) False)
             ?d1"
  proof (rule DoubleLoop_full_block)
    have "sector_counter + NumIndirect \<le> sector_counter + Suc n * NumIndirect" by simp
    then have "int (sector_counter + NumIndirect) \<le> int (sector_counter + Suc n * NumIndirect)"
      by (rule iffD2[OF of_nat_le_iff])
    with Suc.prems(1) show "int (sector_counter + NumIndirect) \<le> wanted" by linarith
    show "NumIndirect + 1 \<le> m" using Suc.prems(2) by simp
    show "nums + 1 < NumIndirect" using Suc.prems(3) by simp
    show "pointers ! (nums + 1) = 0" using Suc.prems(3) by (intro Suc.prems(4)) simp_all
    show "0 < diskSize d" by (rule Suc.prems(5))
  qed
  have "\<exists>pointers' d'.
           DoubleLoop heap (sector_counter + NumIndirect) wanted (nums + 1)
             (pointers[nums := int k])
             (replicate (k + (NumIndirect + 1)) True @ replicate (m - (NumIndirect + 1)) False) ?d1
           = DoubleLoop heap (sector_counter + NumIndirect + n * NumIndirect) wanted (nums + 1 + n)
               pointers'
               (replicate (k + (NumIndirect + 1) + n * (NumIndirect + 1)) True
                  @ replicate (m - (NumIndirect + 1) - n * (NumIndirect + 1)) False) d'
           \<and> (\<forall>i. nums + 1 + n < i \<and> i < NumIndirect \<longrightarrow> pointers' ! i = 0)
           \<and> diskSize d' = diskSize ?d1
           \<and> (\<forall>s. s \<noteq> 0 \<longrightarrow> sectors d' s = sectors ?d1 s)
           \<and> dirFiles d' = dirFiles ?d1 \<and> mapFile d' = mapFile ?d1"
  proof (rule Suc.IH)
    show "int (sector_counter + NumIndirect + n * NumIndirect) \<le> wanted"
      using Suc.prems(1) by (simp add: algebra_simps)
    show "n * (NumIndirect + 1) \<le> m - (NumIndirect + 1)"
      using Suc.prems(2) by simp
    show "nums + 1 + n < NumIndirect" using Suc.prems(3) by simp
    show "(pointers[nums := int k]) ! i = 0" if "nums + 1 < i" "i < NumIndirect" for i
      using that Suc.prems(4)[of i] by simp
    show "0 < diskSize ?d1" using Suc.prems(5) by simp
  qed
  then obtain pointers' d' where r:
    "DoubleLoop heap (sector_counter + NumIndirect) wanted (nums + 1)
             (pointers[nums := int k])
             (replicate (k + (NumIndirect + 1)) True @ replicate (m - (NumIndirect + 1)) False) ?d1
           = DoubleLoop heap (sector_counter + NumIndirect + n * NumIndirect) wanted (nums + 1 + n)
               pointers'
               (replicate (k + (NumIndirect + 1) + n * (NumIndirect + 1)) True
                  @ replicate (m - (NumIndirect + 1) - n * (NumIndirect + 1)) False) d'"
    "\<forall>i. nums + 1 + n < i \<and> i < NumIndirect \<longrightarrow> pointers' ! i = 0"
    "diskSize d' = diskSize ?d1"
    "\<forall>s. s \<noteq> 0 \<longrightarrow> sectors d' s = sectors ?d1 s"
    "dirFiles d' = dirFiles ?d1" "mapFile d' = mapFile ?d1"
    by blast
  have e1: "sector_counter + NumIndirect + n * NumIndirect = sector_counter + Suc n * NumIndirect"
    "nums + 1 + n = nums + Suc n"
    "k + (NumIndirect + 1) + n * (NumIndirect + 1) = k + Suc n * (NumIndirect + 1)"
    "m - (NumIndirect + 1) - n * (NumIndirect + 1) = m - Suc n * (NumIndirect + 1)"
    by simp_all
  show ?case
    apply (rule exI[of _ pointers'])
    apply (rule exI[of _ d'])
    using one r unfolding e1 by simp
qed

lemma DoubleLoop_last_pointer:
  assumes "int sector_counter = wanted" "0 < m" "NumIndirect \<le> nums + 1"
  shows "DoubleLoop heap sector_counter wanted nums pointers
           (replicate k True @ replicate m False) d
         = Inr (False, nums + 1, pointers[nums := int k],
                replicate (Suc k) True @ replicate (m - 1) False, d)"
proof -
  have cl: "claimSectors NumIndirect 0 sector_counter wanted arr freeMap = Inr (0, arr, freeMap)"
    for arr freeMap
    using assms(1) by (subst claimSectors.simps) simp
  show ?thesis
    using assms
    by (subst DoubleLoop.simps) (simp add: FindAndSet_prefix' cl del: replicate.simps)
qed

lemma DoubleLoop_runs_out:
  assumes "int sector_counter \<le> wanted" "0 < m" "m - 1 < NumIndirect"
    and "int (m - 1 + sector_counter) < wanted"
  shows "DoubleLoop heap sector_counter wanted nums pointers
           (replicate k True @ replicate m False) d = Inl AssertionFailure"
proof -
  have cl: "claimSectors NumIndirect 0 sector_counter wanted arr
              (replicate (Suc k) True @ replicate (m - Suc 0) False) = Inl AssertionFailure" for arr
    using assms(3,4) by (intro claimSectors_abort) simp_all
  show ?thesis
    using assms(1,2)
    by (subst DoubleLoop.simps) (simp add: FindAndSet_prefix' cl del: replicate.simps)
qed

lemma zeroHeap_shift: "(\<lambda>k. zeroHeap (Suc k)) = zeroHeap"
  by (simp add: fun_eq_iff zeroHeap_def)

lemma Allocate_989_single:
  assumes "989 \<le> m" "45 < diskSize d"
  shows "\<exists>hdr1. numSectors hdr1 = 989
           \<and> Allocate zeroHeap blankHeader (replicate 17 True @ replicate m False) d
               (989 * int SectorSize)
             = AllocateDoubleIndirect zeroHeap hdr1
                 (replicate 77 True @ replicate (m - 60) False)
                 (d\<lparr>sectors := (sectors d)(45 := 31 # map int [46..<77]),
                    journal := journal d @ [WroteSector 45]\<rparr>)"
proof -
  have direct: "claimSectors 28 0 0 989 (replicate 28 0) (replicate 17 True @ replicate m False)
        = Inr (28, map int [17..<45], replicate 45 True @ replicate (m - 28) False)"
    using claimSectors_run[of 0 28 28 0 989 m "replicate 28 0" 17] assms(1) by simp
  have fs: "FindAndSet (replicate 45 True @ replicate (m - 28) False)
              = (45, replicate 46 True @ replicate (m - 29) False)"
    using FindAndSet_prefix'[of "m - 28" 45] assms(1) by simp
  have single: "claimSectors 31 0 28 989 (replicate 31 0) (replicate 46 True @ replicate (m - 29) False)
        = Inr (31, map int [46..<77], replicate 77 True @ replicate (m - 60) False)"
    using claimSectors_run[of 0 31 31 28 989 "m - 29" "replicate 31 0" 46] assms(1) by simp
  have "Allocate zeroHeap blankHeader (replicate 17 True @ replicate m False) d
               (989 * int SectorSize)
        = AllocateDoubleIndirect zeroHeap
            (blankHeader\<lparr>numBytes := 126592, numSectors := 989, DoubleIndirectSector := - 1,
                          dataSectors := map int [17..<45], SingleIndirectSector := 45\<rparr>)
            (replicate 77 True @ replicate (m - 60) False)
            (d\<lparr>sectors := (sectors d)(45 := 31 # map int [46..<77]),
               journal := journal d @ [WroteSector 45]\<rparr>)"
    using assms
    by (simp add: Allocate_def AllocateSingleIndirect_def divRoundUp_def cquot_def crem_def asUnsigned_def layout NumClear_prefix
          blankHeader_data direct fs single freshArray_zero WriteSector_def singleImage_def
          del: replicate.simps upt_rec_numeral)
  then show ?thesis
    by (intro exI[of _ "blankHeader\<lparr>numBytes := 126592, numSectors := 989,
                          DoubleIndirectSector := - 1,
                          dataSectors := map int [17..<45], SingleIndirectSector := 45\<rparr>"]) simp
qed

lemma pointers_zero: "i < NumIndirect \<Longrightarrow> freshArray (zeroHeap k) ! i = 0"
  by (simp add: freshArray_zero layout)

lemma Allocate_989_big_disk:
  assumes "diskSize d = 2048"
  shows "\<exists>hdr freeMap d'.
           Allocate zeroHeap blankHeader (replicate 17 True @ replicate 2031 False) d
             (989 * int SectorSize) = Inr (False, hdr, freeMap, d')
           \<and> sectors d' 45 = 31 # map int [46..<77]"
proof -
  let ?d1 = "d\<lparr>sectors := (sectors d)(45 := 31 # map int [46..<77]),
                journal := journal d @ [WroteSector 45]\<rparr>"
  from Allocate_989_single[of 2031 d] assms obtain hdr1 where
    h: "numSectors hdr1 = 989"
       "Allocate zeroHeap blankHeader (replicate 17 True @ replicate 2031 False) d
               (989 * int SectorSize)
             = AllocateDoubleIndirect zeroHeap hdr1
                 (replicate 77 True @ replicate 1971 False) ?d1"
    by auto
  have "\<exists>pointers' d'.
           DoubleLoop zeroHeap 59 989 0 (freshArray (zeroHeap 1))
             (replicate 78 True @ replicate 1970 False) ?d1
           = DoubleLoop zeroHeap (59 + 30 * NumIndirect) 989 (0 + 30) pointers'
               (replicate (78 + 30 * (NumIndirect + 1)) True
                  @ replicate (1970 - 30 * (NumIndirect + 1)) False) d'
           \<and> (\<forall>i. 0 + 30 < i \<and> i < NumIndirect \<longrightarrow> pointers' ! i = 0)
           \<and> diskSize d' = diskSize ?d1
           \<and> (\<forall>s. s \<noteq> 0 \<longrightarrow> sectors d' s = sectors ?d1 s)
           \<and> dirFiles d' = dirFiles ?d1 \<and> mapFile d' = mapFile ?d1"
    using assms by (intro DoubleLoop_full_blocks) (simp_all add: layout pointers_zero)
  then obtain pointers' d' where
    r: "DoubleLoop zeroHeap 59 989 0 (freshArray (zeroHeap 1))
             (replicate 78 True @ replicate 1970 False) ?d1
           = DoubleLoop zeroHeap 989 989 30 pointers'
               (replicate 1038 True @ replicate 1010 False) d'"
       "sectors d' 45 = sectors ?d1 45"
    by (auto simp: layout)
  have last: "DoubleLoop zeroHeap 989 989 30 pointers'
               (replicate 1038 True @ replicate 1010 False) d'
              = Inr (False, 30 + 1, pointers'[30 := int 1038],
                     replicate (Suc 1038) True @ replicate (1010 - 1) False, d')"
    by (rule DoubleLoop_last_pointer) (simp_all add: layout)
  have "AllocateDoubleIndirect zeroHeap hdr1 (replicate 77 True @ replicate 1971 False) ?d1
          = Inr (False, hdr1\<lparr>DoubleIndirectSector := 77\<rparr>,
                 replicate (Suc 1038) True @ replicate (1010 - 1) False, d')"
  proof -
    have f: "FindAndSet (replicate 77 True @ replicate 1971 False)
               = (77, replicate 78 True @ replicate 1970 False)"
      using FindAndSet_prefix'[of 1971 77] by simp
    have nd: "NumIndirect + NumDirect = 59" by (simp add: layout)
    show ?thesis
      unfolding AllocateDoubleIndirect_def h(1) f prod.case nd r(1) last by simp
  qed
  with h(2) r(2) show ?thesis by simp
qed

lemma Allocate_989_stock_disk:
  assumes "diskSize d = 1024"
  shows "Allocate zeroHeap blankHeader (replicate 17 True @ replicate 1007 False) d
           (989 * int SectorSize) = Inl AssertionFailure"
proof -
  let ?d1 = "d\<lparr>sectors := (sectors d)(45 := 31 # map int [46..<77]),
                journal := journal d @ [WroteSector 45]\<rparr>"
  from Allocate_989_single[of 1007 d] assms obtain hdr1 where
    h: "numSectors hdr1 = 989"
       "Allocate zeroHeap blankHeader (replicate 17 True @ replicate 1007 False) d
               (989 * int SectorSize)
             = AllocateDoubleIndirect zeroHeap hdr1
                 (replicate 77 True @ replicate 947 False) ?d1"
    by auto
  have "\<exists>pointers' d'.
           DoubleLoop zeroHeap 59 989 0 (freshArray (zeroHeap 1))
             (replicate 78 True @ replicate 946 False) ?d1
           = DoubleLoop zeroHeap (59 + 29 * NumIndirect) 989 (0 + 29) pointers'
               (replicate (78 + 29 * (NumIndirect + 1)) True
                  @ replicate (946 - 29 * (NumIndirect + 1)) False) d'
           \<and> (\<forall>i. 0 + 29 < i \<and> i < NumIndirect \<longrightarrow> pointers' ! i = 0)
           \<and> diskSize d' = diskSize ?d1
           \<and> (\<forall>s. s \<noteq> 0 \<longrightarrow> sectors d' s = sectors ?d1 s)
           \<and> dirFiles d' = dirFiles ?d1 \<and> mapFile d' = mapFile ?d1"
    using assms by (intro DoubleLoop_full_blocks) (simp_all add: layout pointers_zero)
  then obtain pointers' d' where
    r: "DoubleLoop zeroHeap 59 989 0 (freshArray (zeroHeap 1))
             (replicate 78 True @ replicate 946 False) ?d1
           = DoubleLoop zeroHeap 958 989 29 pointers'
               (replicate 1006 True @ replicate 18 False) d'"
    by (auto simp: layout)
  have last: "DoubleLoop zeroHeap 958 989 29 pointers'
               (replicate 1006 True @ replicate 18 False) d' = Inl AssertionFailure"
    by (rule DoubleLoop_runs_out) (simp_all add: layout)
  have "AllocateDoubleIndirect zeroHeap hdr1 (replicate 77 True @ replicate 947 False) ?d1
          = Inl AssertionFailure"
  proof -
    have f: "FindAndSet (replicate 77 True @ replicate 947 False)
               = (77, replicate 78 True @ replicate 946 False)"
      using FindAndSet_prefix'[of 947 77] by simp
    have nd: "NumIndirect + NumDirect = 59" by (simp add: layout)
    show ?thesis
      unfolding AllocateDoubleIndirect_def h(1) f prod.case nd r last by simp
  qed
  with h(2) show ?thesis by simp
qed

lemma bigFS_fields:
  "changeToRightDir bigFS [] = (True, bigFS)"
  "currentDirectoryFile bigFS = 1"
  "dirFiles (disk bigFS) 1 = newDirectory NumDirEntries"
  "mapFile (disk bigFS) = replicate 16 True @ replicate 2032 False"
  "diskSize (disk bigFS) = 2048"
  "sectors (disk bigFS) 45 = replicate 32 0"
  by (simp_all add: bigFS_def blankDisk_def DirectorySector_def)

lemma Directory_Find_newDirectory: "Directory_Find (newDirectory n) nm = -1"
  by (simp add: Directory_Find_def FindIndex_newDirectory)

lemma Directory_Add_newDirectory:
  "fst (Directory_Add (newDirectory NumDirEntries) nm s k)"
  by (simp add: Directory_Add_def FindIndex_newDirectory firstFree_newDirectory NumDirEntries_def)

lemma Create_too_large_big_disk:
  "\<exists>fs'. Create zeroHeap bigFS ''/big'' (989 * int SectorSize) = Inr (False, fs')
         \<and> hd (sectors (disk fs') 45) = 31 \<and> hd (sectors (disk bigFS) 45) = 0"
proof -
  from Allocate_989_big_disk[of "disk bigFS"] obtain hdr freeMap d' where
    a: "Allocate zeroHeap blankHeader (replicate 17 True @ replicate 2031 False) (disk bigFS)
             (989 * int SectorSize) = Inr (False, hdr, freeMap, d')"
       "sectors d' 45 = 31 # map int [46..<77]"
    by (auto simp: bigFS_fields)
  obtain dir1 where add: "Directory_Add (newDirectory NumDirEntries) ''big'' 16 IS_FILE = (True, dir1)"
    using Directory_Add_newDirectory[of "''big''" 16 IS_FILE]
    by (cases "Directory_Add (newDirectory NumDirEntries) ''big'' 16 IS_FILE") simp
  have f: "FindAndSet (replicate 16 True @ replicate 2032 False)
             = (16, replicate 17 True @ replicate 2031 False)"
    using FindAndSet_prefix'[of 2032 16] by simp
  have "Create zeroHeap bigFS ''/big'' (989 * int SectorSize)
          = Inr (False, resetRootDir (bigFS\<lparr>disk := d', currentDirectory := dir1\<rparr>))"
    unfolding Create_def
    by (simp add: splitPath_def bigFS_fields Let_def Directory_FetchFrom_def
          Directory_Find_newDirectory f add zeroHeap_shift freshHeader_zero a(1)
          del: replicate.simps changeToRightDir.simps)
  then show ?thesis
    by (simp add: resetRootDir_def a(2) bigFS_fields)
qed

lemma root_slots:
  "FindIndex (dirEntry ''a'' 5 IS_DIR # dirEntry ''f'' 7 IS_FILE # newDirectory 62) ''big'' = None"
  "firstFree (dirEntry ''a'' 5 IS_DIR # dirEntry ''f'' 7 IS_FILE # newDirectory 62)
     = Some (Suc (Suc 0))"
  by (simp_all add: FindIndex_newDirectory firstFree_newDirectory dirEntry_def)

text \<open>
  On the disk of 1024 sectors the same file is not refused: the pre-check passes with
  1007 free sectors for 989 of data, and the sectors run out in the thirtieth nested
  block, where the assertion of line 125 fails.
\<close>

lemma Create_too_large_stock_disk:
  "int (NumClear (replicate 17 True @ replicate 1007 False))
     \<ge> divRoundUp (989 * int SectorSize) (int SectorSize)
   \<and> Create zeroHeap sampleFS ''/big'' (989 * int SectorSize) = Inl AssertionFailure"
proof -
  have a: "Allocate zeroHeap blankHeader (replicate 17 True @ replicate 1007 False) sampleDisk
             (989 * int SectorSize) = Inl AssertionFailure"
    by (rule Allocate_989_stock_disk) (simp add: sampleDisk_fields)
  have f: "FindAndSet (replicate 16 True @ replicate 1008 False)
             = (16, replicate 17 True @ replicate 1007 False)"
    using FindAndSet_prefix'[of 1008 16] by simp
  have c: "changeToRightDir sampleFS [] = (True, sampleFS)" by simp
  have "Create zeroHeap sampleFS ''/big'' (989 * int SectorSize) = Inl AssertionFailure"
    unfolding Create_def
    by (simp add: splitPath_def c Let_def Directory_FetchFrom_def sampleFS_fields
          sampleDisk_fields Find_root f Directory_Add_def root_slots zeroHeap_shift
          freshHeader_zero a
          del: replicate.simps changeToRightDir.simps FindIndex.simps firstFree.simps)
  then show ?thesis
    by (simp add: NumClear_prefix divRoundUp_def cquot_def crem_def asUnsigned_def layout)
qed

subsection \<open>A negative size\<close>

text \<open>
  With \<^verbatim>\<open>fileSize\<close> = -129 the header gets \<^verbatim>\<open>numSectors\<close> = -1. The direct
  loop does not run; the loop of the single-indirect block, whose comparison is unsigned,
  claims all its 31 sectors; the loop of the double-indirect block does not run.
  \<^verbatim>\<open>Allocate\<close> returns \<^verbatim>\<open>TRUE\<close> with 33 sectors claimed.
\<close>

lemma Allocate_negative_size:
  assumes "diskSize d = 1024"
  shows "Allocate zeroHeap blankHeader (replicate 17 True @ replicate 1007 False) d (-129)
     = Inr (True,
            blankHeader\<lparr>numBytes := -129, numSectors := -1,
                         SingleIndirectSector := 17, DoubleIndirectSector := 49\<rparr>,
            replicate 50 True @ replicate 974 False,
            d\<lparr>sectors := (sectors d)(17 := 31 # map int [18..<49], 49 := 0 # replicate 31 0),
              journal := journal d @ [WroteSector 17, WroteSector 49]\<rparr>)"
proof -
  have direct: "claimSectors 28 0 0 (-1) arr bm = Inr (0, arr, bm)" for arr bm
    by (subst claimSectors.simps) simp
  have single: "claimSectors 31 0 28 4294967295 (replicate 31 0)
                  (replicate 18 True @ replicate 1006 False)
        = Inr (31, map int [18..<49], replicate 49 True @ replicate 975 False)"
    using claimSectors_run[of 0 31 31 28 4294967295 1006 "replicate 31 0" 18] by simp
  have loop: "DoubleLoop zeroHeap 59 (-1) 0 P B D = Inr (True, 0, P, B, D)" for P B D
    by (subst DoubleLoop.simps) simp
  show ?thesis
    by (simp add: Allocate_def AllocateSingleIndirect_def AllocateDoubleIndirect_def
          divRoundUp_def cquot_def crem_def asUnsigned_def
          layout NumClear_prefix blankHeader_data direct single loop FindAndSet_prefix'
          freshArray_zero WriteSector_def singleImage_def doubleImage_def assms
          del: replicate.simps)
qed

lemma Create_negative_size:
  "\<exists>fs'. Create zeroHeap sampleFS ''/a/h'' (-129) = Inr (True, fs')"
proof -
  have hp: "(\<lambda>k. zeroHeap (Suc k)) = zeroHeap" by (simp add: fun_eq_iff zeroHeap_def)
  show ?thesis
    by (simp add: Create_def splitPath_def change_a Let_def Directory_FetchFrom_def Find_a
        Directory_Add_def dirA_slots hp
        FindAndSet_prefix' freshHeader_zero Allocate_negative_size FileHeader_WriteBack_def
        WriteSector_def Directory_WriteBack_def sampleDisk_fields sampleFS_fields
        del: replicate.simps changeToRightDir.simps FindIndex.simps firstFree.simps)
qed

subsection \<open>Disks with little room, and a cursor that was not reset\<close>

lemma sample_paths:
  "splitPath ''/zz/f'' = Inr [''zz'', ''f'']"
  "splitPath ''/a/nofile'' = Inr [''a'', ''nofile'']"
  "splitPath ''/a/x'' = Inr [''a'', ''x'']"
  "splitPath ''/a/g'' = Inr [''a'', ''g'']"
  "splitPath ''/new'' = Inr [''new'']"
  "splitPath ''/big'' = Inr [''big'']"
  by (simp_all add: splitPath_def)

lemma newDirectory_update: "0 < n \<Longrightarrow> (newDirectory n)[0 := e] = e # newDirectory (n - 1)"
  by (cases n) (simp_all add: newDirectory_def)

lemma Create_precheck_refusal:
  "\<exists>fs'. Create zeroHeap sampleFS ''/big'' (2000 * int SectorSize) = Inr (False, fs')"
proof -
  have sp: "splitPath ''/big'' = Inr [''big'']" by (simp add: splitPath_def)
  have c: "changeToRightDir sampleFS (butlast [''big'']) = (True, sampleFS)" by simp
  have f: "FindAndSet (mapFile (disk sampleFS)) = (16, replicate 17 True @ replicate 1007 False)"
    using FindAndSet_prefix'[of 1008 16] by (simp add: sampleFS_fields sampleDisk_fields)
  have "int (NumClear (replicate 17 True @ replicate 1007 False))
          < divRoundUp (2000 * int SectorSize) (int SectorSize)"
    by (simp add: NumClear_prefix divRoundUp_def cquot_def crem_def layout)
  then have "\<exists>fs'. Create zeroHeap sampleFS ''/big'' (2000 * int SectorSize) = Inr (False, fs')
                  \<and> disk fs' = disk sampleFS"
    by (intro Create_refused[OF sp _ c refl f]) simp_all
  then show ?thesis by blast
qed

lemma firstFree_in_use: "\<forall>e \<in> set dir. e_inUse e \<Longrightarrow> firstFree dir = None"
  by (induction dir) simp_all

lemma FindIndex_absent: "\<forall>e \<in> set dir. e_name e \<noteq> nm \<Longrightarrow> FindIndex dir nm = None"
  by (induction dir) simp_all

lemma fullDirectory_slots:
  "length fullDirectory = NumDirEntries"
  "firstFree fullDirectory = None"
  "FindIndex fullDirectory ''new'' = None"
proof -
  show "length fullDirectory = NumDirEntries"
    by (simp add: fullDirectory_def NumDirEntries_def)
  have "\<forall>e \<in> set fullDirectory. e_inUse e"
    by (auto simp: fullDirectory_def dirEntry_def)
  then show "firstFree fullDirectory = None" by (rule firstFree_in_use)
  have "\<forall>e \<in> set fullDirectory. length (e_name e) = 2"
    by (auto simp: fullDirectory_def dirEntry_def dest!: set_zip_leftD)
  then have "\<forall>e \<in> set fullDirectory. e_name e \<noteq> ''new''" by auto
  then show "FindIndex fullDirectory ''new'' = None" by (rule FindIndex_absent)
qed

lemma crowdedFS_fields:
  "currentDirectory crowdedFS
     = Directory_FetchFrom (disk crowdedFS) (currentDirectoryFile crowdedFS)"
  "currentDirectoryFile crowdedFS = 1"
  "dirFiles (disk crowdedFS) 1 = fullDirectory"
  "mapFile (disk crowdedFS) = replicate 100 True @ replicate 924 False"
  by (simp_all add: crowdedFS_def Directory_FetchFrom_def DirectorySector_def)

lemma fullFS_fields:
  "currentDirectory fullFS = Directory_FetchFrom (disk fullFS) (currentDirectoryFile fullFS)"
  "currentDirectoryFile fullFS = 1"
  "dirFiles (disk fullFS) 1
     = dirEntry ''a'' 5 IS_DIR # dirEntry ''f'' 7 IS_FILE # newDirectory 62"
  "mapFile (disk fullFS) = replicate 1024 True"
  by (simp_all add: fullFS_def sampleFS_fields sampleDisk_fields Directory_FetchFrom_def)

lemma crampedFS_fields:
  "currentDirectory crampedFS
     = Directory_FetchFrom (disk crampedFS) (currentDirectoryFile crampedFS)"
  "currentDirectoryFile crampedFS = 1"
  "currentDirectory crampedFS
     = dirEntry ''a'' 5 IS_DIR # dirEntry ''f'' 7 IS_FILE # newDirectory 62"
  "dirFiles (disk crampedFS) 1
     = dirEntry ''a'' 5 IS_DIR # dirEntry ''f'' 7 IS_FILE # newDirectory 62"
  "dirFiles (disk crampedFS) 5 = dirEntry ''g'' 9 IS_FILE # newDirectory 63"
  "mapFile (disk crampedFS) = replicate 1020 True @ replicate 4 False"
  "journal (disk crampedFS) = []"
  by (simp_all add: crampedFS_def sampleFS_fields sampleDisk_fields Directory_FetchFrom_def)

lemma FindAndSet_none: "FindAndSet (replicate k True) = (-1, replicate k True)"
  by (simp add: FindAndSet_def lowestClear_full)

text \<open>
  With four free sectors \<^verbatim>\<open>createDir\<close> adds the entry \<open>d\<close> to the directory
  object in memory and is then refused by the pre-check of \<^verbatim>\<open>Allocate\<close>;
  \<^verbatim>\<open>MakeNewDir\<close> returns at line 692 and the object keeps the entry. The next
  operation that crosses the root directory writes the object to the disk.
\<close>

lemma root_slots_d:
  "FindIndex (dirEntry ''a'' 5 IS_DIR # dirEntry ''f'' 7 IS_FILE # newDirectory 62) ''d'' = None"
  by (simp add: FindIndex_newDirectory dirEntry_def)

lemma Find_dirty_root:
  "Directory_Find (dirEntry ''a'' 5 IS_DIR # dirEntry ''f'' 7 IS_FILE
                     # dirEntry ''d'' 1020 IS_DIR # newDirectory 61) nm
     = (if nm = ''a'' then 5 else if nm = ''f'' then 7 else if nm = ''d'' then 1020 else -1)"
  by (simp add: Directory_Find_def FindIndex_newDirectory dirEntry_def)

lemma MakeNewDir_cramped:
  "MakeNewDir zeroHeap 1280 crampedFS ''/d''
     = Inr (False,
            crampedFS\<lparr>currentDirectory :=
                        dirEntry ''a'' 5 IS_DIR # dirEntry ''f'' 7 IS_FILE
                          # dirEntry ''d'' 1020 IS_DIR # newDirectory 61\<rparr>)"
proof -
  have f: "FindAndSet (replicate 1020 True @ replicate 4 False)
             = (1020, replicate 1021 True @ replicate 3 False)"
    using FindAndSet_prefix'[of 4 1020] by simp
  have pre: "int (NumClear (replicate 1021 True @ replicate 3 False))
               < divRoundUp 1280 (int SectorSize)"
    by (simp add: NumClear_prefix divRoundUp_def cquot_def crem_def layout)
  have c: "changeToRightDir crampedFS [] = (True, crampedFS)" by simp
  have e: "dirEntry ''d'' 1020 IS_DIR
             = \<lparr>e_inUse = True, e_name = ''d'', e_sector = 1020, e_kind = IS_DIR\<rparr>"
    by (simp add: dirEntry_def)
  have cr: "createDir zeroHeap 1280 crampedFS ''d''
     = Inr (False,
            crampedFS\<lparr>currentDirectory :=
                        dirEntry ''a'' 5 IS_DIR # dirEntry ''f'' 7 IS_FILE
                          # dirEntry ''d'' 1020 IS_DIR # newDirectory 61\<rparr>)"
    unfolding e
    by (simp add: createDir_def Let_def Directory_FetchFrom_def crampedFS_fields Find_root
          Directory_Add_def root_slots_d root_slots(2) f Allocate_precheck_result[OF pre]
          newDirectory_update
          del: replicate.simps FindIndex.simps firstFree.simps)
  show ?thesis
    by (simp add: MakeNewDir_def splitPath_def c cr del: changeToRightDir.simps)
qed

lemma change_a_dirty:
  "changeToRightDir
     (crampedFS\<lparr>currentDirectory :=
                  dirEntry ''a'' 5 IS_DIR # dirEntry ''f'' 7 IS_FILE
                    # dirEntry ''d'' 1020 IS_DIR # newDirectory 61\<rparr>) [''a'']
   = (True,
      crampedFS\<lparr>disk := Directory_WriteBack (disk crampedFS) 1
                           (dirEntry ''a'' 5 IS_DIR # dirEntry ''f'' 7 IS_FILE
                              # dirEntry ''d'' 1020 IS_DIR # newDirectory 61),
                 currentDirectoryFile := 5,
                 currentDirectory := dirEntry ''g'' 9 IS_FILE # newDirectory 63\<rparr>)"
  by (simp add: crampedFS_fields Find_dirty_root Directory_FetchFrom_def Directory_WriteBack_def)

lemma Create_after_refused_MakeNewDir:
  "\<exists>fs1 fs2. MakeNewDir zeroHeap 1280 crampedFS ''/d'' = Inr (False, fs1)
     \<and> disk fs1 = disk crampedFS
     \<and> Create heap fs1 ''/a/g'' 0 = Inr (False, fs2)
     \<and> Directory_Find (dirFiles (disk fs1) 1) ''d'' = -1
     \<and> Directory_Find (dirFiles (disk fs2) 1) ''d'' = 1020"
  by (simp add: MakeNewDir_cramped Create_def splitPath_def change_a_dirty Let_def
        Directory_FetchFrom_def Find_a Find_root Find_dirty_root resetRootDir_def
        Directory_WriteBack_def crampedFS_fields
        del: changeToRightDir.simps)

lemma Open_after_refused_MakeNewDir:
  "\<exists>fs1 fs2. MakeNewDir zeroHeap 1280 crampedFS ''/d'' = Inr (False, fs1)
     \<and> disk fs1 = disk crampedFS
     \<and> Open fs1 ''/a/nofile'' = Inr (None, fs2)
     \<and> Directory_Find (dirFiles (disk fs1) 1) ''d'' = -1
     \<and> Directory_Find (dirFiles (disk fs2) 1) ''d'' = 1020"
  by (simp add: MakeNewDir_cramped Open_def splitPath_def change_a_dirty Let_def
        Directory_FetchFrom_def Find_a Find_root Find_dirty_root resetRootDir_def
        Directory_WriteBack_def crampedFS_fields
        del: changeToRightDir.simps)

section \<open>The claims about the file header\<close>

text \<open>
  C2. The claim: once the pre-check \<^verbatim>\<open>NumClear() >= numSectors\<close> has passed, every
  later \<^verbatim>\<open>FindAndSet\<close> of the call succeeds and the assertions cannot fail. The
  pre-check counts the data sectors only. With exactly 29 free sectors and a file of 29
  sectors the pre-check passes, the 28 direct sectors and the sector of the
  single-indirect block use up all 29, and the claim of the 29th data sector fails the
  assertion of line 95.
\<close>

theorem C2_assertion_fails_after_precheck:
  "\<not> int (NumClear (replicate k True @ replicate 29 False))
       < divRoundUp (29 * int SectorSize) (int SectorSize)
   \<and> Allocate heap blankHeader (replicate k True @ replicate 29 False) d (29 * int SectorSize)
       = Inl AssertionFailure"
  using Allocate_29_abort[of heap k d]
  by (simp add: NumClear_prefix divRoundUp_def cquot_def crem_def asUnsigned_def layout)

text \<open>
  C3. The claim: a file of \<^verbatim>\<open>NumDirect + NumIndirect\<close> sectors gets one single-indirect
  block and no double-indirect block. \<^verbatim>\<open>AllocateSingleIndirect\<close> returns
  \<^verbatim>\<open>FALSE\<close> whenever the block is full, also when it covers the file: at 59 sectors
  the header ends with a double-indirect block in sector 62, three sectors beyond the 59
  of the data are claimed (the blocks in 30, 62 and 63), and the empty nested block is
  written to sector 0.
\<close>

theorem C3_double_indirect_at_exact_capacity:
  "\<exists>hdr freeMap d.
     Allocate zeroHeap blankHeader (replicate 2 True @ replicate 1022 False) (blankDisk 1024)
       (59 * int SectorSize) = Inr (True, hdr, freeMap, d)
     \<and> numSectors hdr = int (NumDirect + NumIndirect)
     \<and> SingleIndirectSector hdr = 30
     \<and> DoubleIndirectSector hdr = 62
     \<and> NumClear (replicate 2 True @ replicate 1022 False) = NumClear freeMap + 59 + 3
     \<and> journal d = [WroteSector 30, WroteSector 0, WroteSector 62]"
  unfolding Allocate_59
  by (simp add: layout NumClear_prefix blankDisk_def)

text \<open>
  C1. The claim: after a successful \<^verbatim>\<open>Allocate\<close>, \<^verbatim>\<open>ByteToSector(k * SectorSize)\<close>
  is the sector claimed as the \<open>k\<close>-th data sector. For a file of 60 sectors on a disk
  whose sectors 0 and 1 are in use, the data sector of index 59 is sector 64: it is claimed
  by the call and entered in the nested block. That block is written to the sector named
  by the uninitialised cell \<^verbatim>\<open>pointers[1]\<close> (here 0), not to sector 63, which the
  double-indirect block points to. \<^verbatim>\<open>ByteToSector\<close> reads sector 63 and returns 0, a
  sector that was in use before the call.
\<close>

theorem C1_ByteToSector_misses_claimed_sector:
  "\<exists>hdr freeMap d.
     Allocate zeroHeap blankHeader (replicate 2 True @ replicate 1022 False) (blankDisk 1024)
       (60 * int SectorSize) = Inr (True, hdr, freeMap, d)
     \<and> numSectors hdr = 60
     \<and> ByteToSector hdr d (59 * SectorSize) = Inr 0
     \<and> Test (replicate 2 True @ replicate 1022 False) 0
     \<and> \<not> Test (replicate 2 True @ replicate 1022 False) 64
     \<and> Test freeMap 64
     \<and> s_dataSectors (singleOfImage (sectors d 0)) ! 0 = 64
     \<and> d_pointers (doubleOfImage (sectors d (DoubleIndirectSector hdr))) ! 0 = 63"
proof -
  define hdr where "hdr = blankHeader\<lparr>numBytes := 7680, numSectors := 60, dataSectors := map int [2..<30],
                       SingleIndirectSector := 30, DoubleIndirectSector := 62\<rparr>"
  define bm where "bm = replicate 65 True @ replicate 959 False"
  define d where "d = (blankDisk 1024)\<lparr>sectors := (sectors (blankDisk 1024))
                               (30 := 31 # map int [31..<62],
                                0 := 1 # (replicate 31 0)[0 := 64],
                                62 := 1 # (replicate 31 0)[0 := 63]),
                            journal := [WroteSector 30, WroteSector 0, WroteSector 62]\<rparr>"
  have alloc: "Allocate zeroHeap blankHeader (replicate 2 True @ replicate 1022 False) (blankDisk 1024)
       (60 * int SectorSize) = Inr (True, hdr, bm, d)"
    unfolding hdr_def bm_def d_def by (rule Allocate_60)
  have bts: "ByteToSector hdr d (59 * SectorSize) = Inr 0"
    by (simp add: hdr_def d_def ByteToSector_def layout ReadSector_def blankDisk_def
          doubleOfImage_def singleOfImage_def del: replicate.simps)
  have rest: "numSectors hdr = 60" "Test bm 64"
      "s_dataSectors (singleOfImage (sectors d 0)) ! 0 = 64"
      "d_pointers (doubleOfImage (sectors d (DoubleIndirectSector hdr))) ! 0 = 63"
    by (simp_all add: hdr_def bm_def d_def Test_prefix singleOfImage_def doubleOfImage_def
          del: replicate.simps)
  have before: "Test (replicate 2 True @ replicate 1022 False) 0"
      "\<not> Test (replicate 2 True @ replicate 1022 False) 64"
    by (simp_all add: Test_prefix)
  show ?thesis
    using alloc bts rest before by blast
qed

text \<open>
  C4. The claim: \<^verbatim>\<open>Allocate\<close> followed by \<^verbatim>\<open>Deallocate\<close> leaves the number of clear
  bits as it was. For the file of 60 sectors of C1, \<^verbatim>\<open>Deallocate\<close> reads the nested
  block from sector 63, which \<^verbatim>\<open>Allocate\<close> never wrote; it finds no entry there and
  data sector 64 stays set: 1022 sectors were free before the pair and 1021 are free after.
\<close>

theorem C4_Allocate_Deallocate_leaks_a_sector:
  "\<exists>hdr freeMap d hdr' freeMap'.
     Allocate zeroHeap blankHeader (replicate 2 True @ replicate 1022 False) (blankDisk 1024)
       (60 * int SectorSize) = Inr (True, hdr, freeMap, d)
     \<and> Deallocate hdr freeMap d = Inr (hdr', freeMap')
     \<and> NumClear (replicate 2 True @ replicate 1022 False) = 1022
     \<and> NumClear freeMap' = 1021"
proof -
  define hdr where "hdr = blankHeader\<lparr>numBytes := 7680, numSectors := 60, dataSectors := map int [2..<30],
                       SingleIndirectSector := 30, DoubleIndirectSector := 62\<rparr>"
  define bm where "bm = replicate 65 True @ replicate 959 False"
  define d where "d = (blankDisk 1024)\<lparr>sectors := (sectors (blankDisk 1024))
                               (30 := 31 # map int [31..<62],
                                0 := 1 # (replicate 31 0)[0 := 64],
                                62 := 1 # (replicate 31 0)[0 := 63]),
                            journal := [WroteSector 30, WroteSector 0, WroteSector 62]\<rparr>"
  have alloc: "Allocate zeroHeap blankHeader (replicate 2 True @ replicate 1022 False) (blankDisk 1024)
       (60 * int SectorSize) = Inr (True, hdr, bm, d)"
    unfolding hdr_def bm_def d_def by (rule Allocate_60)
  have tbm: "Test bm t \<longleftrightarrow> 0 \<le> t \<and> t < 65" for t
    by (simp add: bm_def Test_prefix)
  have nbm: "NumClear bm = 959" by (simp add: bm_def NumClear_prefix)
  have ds: "dataSectors hdr = map int [2..<30]" "numSectors hdr = 60"
    "SingleIndirectSector hdr = 30" "DoubleIndirectSector hdr = 62"
    by (simp_all add: hdr_def)
  have tk: "take 28 (map int [2..<30]) = map int [2..<30]" "take 31 (map int [31..<62]) = map int [31..<62]"
    by simp_all
  have "\<exists>bm'. DeallocateDirect 0 hdr bm = Inr bm' \<and> NumClear bm' = NumClear bm + 28
            \<and> (\<forall>t. Test bm' t \<longleftrightarrow> Test bm t \<and> t \<notin> set (drop 0 (take 28 (dataSectors hdr))))"
  proof (rule DeallocateDirect_ok)
    show "28 = min NumDirect (nat (numSectors hdr))" by (simp add: ds layout)
    show "0 + 28 = (28::nat)" by simp
    show "28 \<le> length (dataSectors hdr)" by (simp add: ds)
    show "distinct (drop 0 (take 28 (dataSectors hdr)))"
      unfolding ds drop_0 tk by (rule distinct_map_int_upt)
    show "\<forall>s\<in>set (drop 0 (take 28 (dataSectors hdr))). Test bm s"
      unfolding ds drop_0 tk by (simp add: in_set_map_int_upt tbm del: upt_rec_numeral set_map set_upt)
  qed
  then obtain bm1 where b1: "DeallocateDirect 0 hdr bm = Inr bm1" "NumClear bm1 = 987"
      "\<And>t. Test bm1 t \<longleftrightarrow> (0 \<le> t \<and> t < 65) \<and> \<not> (2 \<le> t \<and> t < 30)"
    unfolding ds drop_0 tk in_set_map_int_upt nbm tbm by auto
  have "\<exists>bm'. clearEntries (map int [31..<62]) 31 bm1 = Inr bm' \<and> NumClear bm' = NumClear bm1 + 31
            \<and> (\<forall>t. Test bm' t \<longleftrightarrow> Test bm1 t \<and> t \<notin> set (take 31 (map int [31..<62])))"
  proof (rule clearEntries_ok)
    show "31 \<le> length (map int [31..<62])" by simp
    show "distinct (take 31 (map int [31..<62]))" unfolding tk by (rule distinct_map_int_upt)
    show "\<forall>s\<in>set (take 31 (map int [31..<62])). Test bm1 s"
      unfolding tk by (simp add: in_set_map_int_upt b1 del: upt_rec_numeral set_map set_upt)
  qed
  then obtain bm2 where b2: "clearEntries (map int [31..<62]) 31 bm1 = Inr bm2" "NumClear bm2 = 1018"
      "\<And>t. Test bm2 t \<longleftrightarrow> ((0 \<le> t \<and> t < 65) \<and> \<not> (2 \<le> t \<and> t < 30)) \<and> \<not> (31 \<le> t \<and> t < 62)"
    unfolding tk in_set_map_int_upt b1 by auto
  have t30: "Test bm2 30" by (simp add: b2)
  from Clear_Test[OF this] obtain bm3 where b3: "Clear bm2 30 = Inr bm3" "NumClear bm3 = 1019"
      "\<And>t. Test bm3 t \<longleftrightarrow> Test bm2 t \<and> t \<noteq> 30"
    unfolding b2 by auto
  have t63: "Test bm3 63" by (simp add: b3 b2)
  from Clear_Test[OF this] obtain bm4 where b4: "Clear bm3 63 = Inr bm4" "NumClear bm4 = 1020"
      "\<And>t. Test bm4 t \<longleftrightarrow> Test bm3 t \<and> t \<noteq> 63"
    unfolding b3 by auto
  have t62: "Test bm4 62" by (simp add: b4 b3 b2)
  from Clear_Test[OF this] obtain bm5 where b5: "Clear bm4 62 = Inr bm5" "NumClear bm5 = 1021"
    unfolding b4 by auto
  have single: "DeallocateSingle hdr bm1 d = Inr (hdr\<lparr>SingleIndirectSector := -1\<rparr>, bm3)"
    using t30
    by (simp add: DeallocateSingle_def ds d_def ReadSector_def blankDisk_def singleOfImage_def b2 b3
          del: upt_rec_numeral)
  have nested: "clearNested d ((replicate 31 0)[0 := 63]) (Suc 0) bm3 = Inr bm4"
    using t63
    by (simp add: d_def ReadSector_def blankDisk_def singleOfImage_def b4 del: replicate.simps)
  have dbl: "DeallocateDouble (hdr\<lparr>SingleIndirectSector := -1\<rparr>) bm3 d
               = Inr (hdr\<lparr>SingleIndirectSector := -1, DoubleIndirectSector := -1\<rparr>, bm5)"
    using t62 nested
    by (simp add: DeallocateDouble_def ds d_def ReadSector_def blankDisk_def doubleOfImage_def b5
             del: replicate.simps)
  have "Deallocate hdr bm d = Inr (hdr\<lparr>SingleIndirectSector := -1, DoubleIndirectSector := -1\<rparr>, bm5)"
    by (simp add: Deallocate_def b1 single dbl)
  then show ?thesis
    using alloc b5 by (simp add: NumClear_prefix)
qed

section \<open>The claims about the file system\<close>

text \<open>
  C5, as amended. The claim: a failing \<^verbatim>\<open>Create\<close> writes no sector and leaves the
  bitmap and the directories on disk as they were, and a successful one flushes the
  header, the parent directory and the bitmap in that order. What holds, for every size,
  negative or not, when the call starts with the directory object in memory equal to the
  directory file the cursor stands on, as \<^verbatim>\<open>resetRootDir\<close> leaves it: here \<open>fs1\<close>
  is the state after path resolution, \<open>parent\<close> and \<open>dir\<close> the directory it ends in
  and its contents, \<open>leaf\<close> the last piece of the path, and \<open>sector\<close> and
  \<open>freeMap\<close> the sector claimed for the header and the bitmap after the claim.

  When \<^verbatim>\<open>Create\<close> returns \<^verbatim>\<open>FALSE\<close>, either the raw sectors, the directory
  files and the bitmap file hold what they held and the only writes are write-backs of
  directories; or \<^verbatim>\<open>Allocate\<close> was called and refused after its pre-check had
  passed: the name is new, a sector and a slot were free for it, and the size needs
  \<^verbatim>\<open>NumDirect + NumIndirect * NumIndirect\<close> sectors or more, of which as many are
  free.

  When \<^verbatim>\<open>Create\<close> returns \<^verbatim>\<open>TRUE\<close>, \<^verbatim>\<open>Allocate\<close> has returned
  \<^verbatim>\<open>TRUE\<close>, and the last three writes are the image of the header it built, to the
  sector claimed for the header; the parent directory with the new entry, to the file of
  the parent; and the bitmap that \<^verbatim>\<open>Allocate\<close> left, to the file of the bitmap.
\<close>

theorem C5_Create_commit:
  assumes "currentDirectory fs = Directory_FetchFrom (disk fs) (currentDirectoryFile fs)"
    and "fs1 = snd (changeToRightDir fs (butlast (strtok [] name)))"
    and "parent = currentDirectoryFile fs1"
    and "dir = dirFiles (disk fs) parent"
    and "leaf = last (strtok [] name)"
    and "sector = fst (FindAndSet (mapFile (disk fs)))"
    and "freeMap = snd (FindAndSet (mapFile (disk fs)))"
  shows "(Create heap fs name initialSize = Inr (False, fs')
          \<longrightarrow> (sectors (disk fs') = sectors (disk fs) \<and> dirFiles (disk fs') = dirFiles (disk fs)
                \<and> mapFile (disk fs') = mapFile (disk fs)
                \<and> (\<exists>ws. journal (disk fs') = journal (disk fs) @ ws
                         \<and> set ws \<subseteq> range WroteDirectory))
              \<or> (Directory_Find dir leaf = -1 \<and> sector \<noteq> -1
                  \<and> fst (Directory_Add dir leaf sector IS_FILE)
                  \<and> int (NumDirect + NumIndirect * NumIndirect)
                        \<le> divRoundUp initialSize (int SectorSize)
                  \<and> divRoundUp initialSize (int SectorSize) \<le> int (NumClear freeMap)))
       \<and> (Create heap fs name initialSize = Inr (True, fs')
          \<longrightarrow> (\<exists>hdr freeMap1 d1.
                 Allocate (\<lambda>k. heap (Suc k)) (freshHeader (heap 0)) freeMap (disk fs1) initialSize
                   = Inr (True, hdr, freeMap1, d1)
               \<and> journal (disk fs')
                   = journal d1 @ [WroteSector sector, WroteDirectory parent, WroteBitmap]
               \<and> sectors (disk fs') = (sectors d1)(sector := headerImage hdr)
               \<and> dirFiles (disk fs')
                   = (dirFiles (disk fs))(parent := snd (Directory_Add dir leaf sector IS_FILE))
               \<and> mapFile (disk fs') = freeMap1))"
proof -
  obtain ok where ch: "changeToRightDir fs (butlast (strtok [] name)) = (ok, fs1)"
    using assms(2) by (cases "changeToRightDir fs (butlast (strtok [] name))") simp
  have clean: "currentDirectory fs = dirFiles (disk fs) (currentDirectoryFile fs)"
    using assms(1) by (simp add: Directory_FetchFrom_def)
  from changeToRightDir_keeps[OF clean ch]
  have keep: "sectors (disk fs1) = sectors (disk fs)" "dirFiles (disk fs1) = dirFiles (disk fs)"
    "mapFile (disk fs1) = mapFile (disk fs)"
    by simp_all
  from changeToRightDir_journal[OF ch] obtain ws where
    ws: "journal (disk fs1) = journal (disk fs) @ ws" "set ws \<subseteq> range WroteDirectory"
    by blast
  have fas: "FindAndSet (mapFile (disk fs1)) = (sector, freeMap)"
    using assms(6,7) keep(3) by simp
  have dir: "dir = dirFiles (disk fs1) (currentDirectoryFile fs1)"
    using assms(3,4) keep(2) by simp
  have refused: "(sectors (disk fs') = sectors (disk fs) \<and> dirFiles (disk fs') = dirFiles (disk fs)
                \<and> mapFile (disk fs') = mapFile (disk fs)
                \<and> (\<exists>ws. journal (disk fs') = journal (disk fs) @ ws
                         \<and> set ws \<subseteq> range WroteDirectory))
              \<or> (Directory_Find dir leaf = -1 \<and> sector \<noteq> -1
                  \<and> fst (Directory_Add dir leaf sector IS_FILE)
                  \<and> int (NumDirect + NumIndirect * NumIndirect)
                        \<le> divRoundUp initialSize (int SectorSize)
                  \<and> divRoundUp initialSize (int SectorSize) \<le> int (NumClear freeMap))"
    if "Create heap fs name initialSize = Inr (False, fs')"
  proof -
    from Create_refusal_disk[OF that ch fas dir]
    consider "disk fs' = disk fs1"
      | "Directory_Find dir leaf = -1 \<and> sector \<noteq> -1
         \<and> fst (Directory_Add dir leaf sector IS_FILE)
         \<and> int (NumDirect + NumIndirect * NumIndirect) \<le> divRoundUp initialSize (int SectorSize)
         \<and> divRoundUp initialSize (int SectorSize) \<le> int (NumClear freeMap)"
      using assms(5) by auto
    then show ?thesis
    proof cases
      case 1
      with keep ws show ?thesis by auto
    next
      case 2
      then show ?thesis by blast
    qed
  qed
  have flushed: "\<exists>hdr freeMap1 d1.
                 Allocate (\<lambda>k. heap (Suc k)) (freshHeader (heap 0)) freeMap (disk fs1) initialSize
                   = Inr (True, hdr, freeMap1, d1)
               \<and> journal (disk fs')
                   = journal d1 @ [WroteSector sector, WroteDirectory parent, WroteBitmap]
               \<and> sectors (disk fs') = (sectors d1)(sector := headerImage hdr)
               \<and> dirFiles (disk fs')
                   = (dirFiles (disk fs))(parent := snd (Directory_Add dir leaf sector IS_FILE))
               \<and> mapFile (disk fs') = freeMap1"
    if "Create heap fs name initialSize = Inr (True, fs')"
  proof -
    from Create_success_disk[OF that ch fas] obtain hdr freeMap1 d1 where
      a: "Allocate (\<lambda>k. heap (Suc k)) (freshHeader (heap 0)) freeMap (disk fs1) initialSize
            = Inr (True, hdr, freeMap1, d1)"
      and d: "disk fs' =
             d1\<lparr>sectors := (sectors d1)(sector := headerImage hdr),
                dirFiles := (dirFiles d1)
                   (currentDirectoryFile fs1 :=
                      snd (Directory_Add (dirFiles (disk fs1) (currentDirectoryFile fs1))
                             (last (strtok [] name)) sector IS_FILE)),
                mapFile := freeMap1,
                journal := journal d1 @ [WroteSector sector,
                                         WroteDirectory (currentDirectoryFile fs1), WroteBitmap]\<rparr>"
      by blast
    from Allocate_keeps[OF a] have "dirFiles d1 = dirFiles (disk fs1)" by simp
    with d keep assms(3,4,5) have
      "journal (disk fs') = journal d1 @ [WroteSector sector, WroteDirectory parent, WroteBitmap]"
      "sectors (disk fs') = (sectors d1)(sector := headerImage hdr)"
      "dirFiles (disk fs')
                   = (dirFiles (disk fs))(parent := snd (Directory_Add dir leaf sector IS_FILE))"
      "mapFile (disk fs') = freeMap1"
      by simp_all
    with a show ?thesis by blast
  qed
  from refused flushed show ?thesis by blast
qed

text \<open>
  The theorem at work: \<open>/a/g\<close> exists and is refused, here with a size of 989
  sectors; \<open>/big\<close>, of 2000 sectors, is refused by the pre-check with 1007 sectors free; \<open>/a/h\<close> is created with 100
  bytes, its header in sector 16, in the directory whose header is in sector 5, with one
  data sector; and \<open>/a/h\<close> is created with the size -129, with 33 sectors claimed
  besides the header's.
\<close>

theorem C5_Create_commit_witness:
  "(\<exists>fs'. Create zeroHeap sampleFS ''/a/g'' (989 * int SectorSize) = Inr (False, fs')
          \<and> sectors (disk fs') = sectors (disk sampleFS)
          \<and> dirFiles (disk fs') = dirFiles (disk sampleFS)
          \<and> mapFile (disk fs') = mapFile (disk sampleFS))
   \<and> (\<exists>fs'. Create zeroHeap sampleFS ''/big'' (2000 * int SectorSize) = Inr (False, fs')
          \<and> sectors (disk fs') = sectors (disk sampleFS)
          \<and> dirFiles (disk fs') = dirFiles (disk sampleFS)
          \<and> mapFile (disk fs') = mapFile (disk sampleFS))
   \<and> (\<exists>fs'. Create zeroHeap sampleFS ''/a/h'' 100 = Inr (True, fs')
          \<and> (\<exists>pre. journal (disk fs') = pre @ [WroteSector 16, WroteDirectory 5, WroteBitmap])
          \<and> hd (sectors (disk fs') 16) = 100
          \<and> Directory_Find (dirFiles (disk fs') 5) ''h'' = 16
          \<and> mapFile (disk fs') = replicate 18 True @ replicate 1006 False)
   \<and> (\<exists>fs'. Create zeroHeap sampleFS ''/a/h'' (-129) = Inr (True, fs')
          \<and> (\<exists>pre. journal (disk fs') = pre @ [WroteSector 16, WroteDirectory 5, WroteBitmap])
          \<and> mapFile (disk fs') = replicate 50 True @ replicate 974 False)"
proof -
  have f: "FindAndSet (mapFile (disk sampleFS)) = (16, replicate 17 True @ replicate 1007 False)"
    using FindAndSet_prefix'[of 1008 16] by (simp add: sampleFS_fields sampleDisk_fields)
  from Create_existing obtain fs1 where
    c1: "Create zeroHeap sampleFS ''/a/g'' (989 * int SectorSize) = Inr (False, fs1)" by blast
  have present:
    "Directory_Find
       (dirFiles (disk sampleFS)
          (currentDirectoryFile (snd (changeToRightDir sampleFS (butlast (strtok [] ''/a/g''))))))
       (last (strtok [] ''/a/g'')) \<noteq> -1"
    by (simp add: change_a sampleFS_fields sampleDisk_fields Find_a del: changeToRightDir.simps)
  from C5_Create_commit[OF sampleFS_clean refl refl refl refl refl refl,
         of zeroHeap "''/a/g''" "989 * int SectorSize" fs1] c1 present
  have p1: "sectors (disk fs1) = sectors (disk sampleFS)
          \<and> dirFiles (disk fs1) = dirFiles (disk sampleFS)
          \<and> mapFile (disk fs1) = mapFile (disk sampleFS)" by blast
  from Create_precheck_refusal obtain fs2 where
    c2: "Create zeroHeap sampleFS ''/big'' (2000 * int SectorSize) = Inr (False, fs2)" by blast
  have short: "\<not> divRoundUp (2000 * int SectorSize) (int SectorSize)
                   \<le> int (NumClear (snd (FindAndSet (mapFile (disk sampleFS)))))"
    by (simp add: f NumClear_prefix divRoundUp_def cquot_def crem_def layout)
  from C5_Create_commit[OF sampleFS_clean refl refl refl refl refl refl,
         of zeroHeap "''/big''" "2000 * int SectorSize" fs2] c2 short
  have p2: "sectors (disk fs2) = sectors (disk sampleFS)
          \<and> dirFiles (disk fs2) = dirFiles (disk sampleFS)
          \<and> mapFile (disk fs2) = mapFile (disk sampleFS)" by blast
  from Create_new obtain fs3 where
    c3: "Create zeroHeap sampleFS ''/a/h'' 100 = Inr (True, fs3)" by blast
  have tok: "strtok [] ''/a/h'' = [''a'', ''h'']" by simp
  have par: "currentDirectoryFile (snd (changeToRightDir sampleFS (butlast [''a'', ''h'']))) = 5"
    by (simp add: change_a del: changeToRightDir.simps)
  have hp: "(\<lambda>k. zeroHeap (Suc k)) = zeroHeap" by (simp add: fun_eq_iff zeroHeap_def)
  have img: "hd (headerImage (blankHeader\<lparr>numBytes := 100, numSectors := 1,
                         SingleIndirectSector := -1, DoubleIndirectSector := -1,
                         dataSectors := 17 # replicate 27 0\<rparr>)) = 100"
    by (simp add: headerImage_def)
  have add: "snd (Directory_Add (dirEntry ''g'' 9 IS_FILE # newDirectory 63) ''h'' 16 IS_FILE)
               = dirEntry ''g'' 9 IS_FILE # dirEntry ''h'' 16 IS_FILE # newDirectory 62"
    by (simp add: Directory_Add_def dirA_slots newDirectory_update dirEntry_def[of "''h''"]
          del: FindIndex.simps firstFree.simps)
  have find: "Directory_Find (dirEntry ''g'' 9 IS_FILE # dirEntry ''h'' 16 IS_FILE # newDirectory 62)
                ''h'' = 16"
    by (simp add: Directory_Find_def FindIndex_newDirectory dirEntry_def)
  have ent: "Directory_Find
               (snd (Directory_Add (dirFiles (disk sampleFS) 5) (last [''a'', ''h'']) 16 IS_FILE))
               ''h'' = 16"
    by (simp add: sampleFS_fields sampleDisk_fields add find)
  from C5_Create_commit[OF sampleFS_clean refl refl refl refl refl refl,
         of zeroHeap "''/a/h''" 100 fs3] c3
  have p3: "(\<exists>pre. journal (disk fs3) = pre @ [WroteSector 16, WroteDirectory 5, WroteBitmap])
          \<and> hd (sectors (disk fs3) 16) = 100
          \<and> Directory_Find (dirFiles (disk fs3) 5) ''h'' = 16
          \<and> mapFile (disk fs3) = replicate 18 True @ replicate 1006 False"
    unfolding tok par f fst_conv snd_conv hp freshHeader_zero Allocate_one_sector
    using img ent by auto
  from Create_negative_size obtain fs4 where
    c4: "Create zeroHeap sampleFS ''/a/h'' (-129) = Inr (True, fs4)" by blast
  have ds: "diskSize (disk (snd (changeToRightDir sampleFS (butlast [''a'', ''h''])))) = 1024"
    by (simp add: change_a Directory_WriteBack_def sampleDisk_fields del: changeToRightDir.simps)
  from C5_Create_commit[OF sampleFS_clean refl refl refl refl refl refl,
         of zeroHeap "''/a/h''" "-129" fs4] c4
  have p4: "(\<exists>pre. journal (disk fs4) = pre @ [WroteSector 16, WroteDirectory 5, WroteBitmap])
          \<and> mapFile (disk fs4) = replicate 50 True @ replicate 974 False"
    unfolding tok par f fst_conv snd_conv hp freshHeader_zero Allocate_negative_size[OF ds]
    by auto
  from c1 p1 c2 p2 c3 p3 c4 p4 show ?thesis by blast
qed

text \<open>
  C5 as stated fails. The refused \<^verbatim>\<open>Create\<close> of \<open>/a/g\<close> has written the
  root directory, which \<^verbatim>\<open>changeToRightDir\<close> writes back before it opens \<open>a\<close>.
  On the disk of 2048 sectors \<^verbatim>\<open>Create\<close> refuses the file of 989 sectors after
  \<^verbatim>\<open>Allocate\<close> has written the single-indirect block to sector 45, which held zeros.
  And after a refused \<^verbatim>\<open>MakeNewDir\<close> of \<open>/d\<close>, which has changed nothing on the
  disk, the refused \<^verbatim>\<open>Create\<close> of \<open>/a/g\<close> leaves the entry \<open>d\<close> in the root
  directory on disk: the directory object in memory was not the directory file.
\<close>

theorem C5_failed_Create_writes_counterexample:
  "(\<exists>fs'. Create zeroHeap sampleFS ''/a/g'' 0 = Inr (False, fs')
          \<and> journal (disk sampleFS) = []
          \<and> journal (disk fs') = [WroteDirectory 1])
   \<and> (\<exists>fs'. Create zeroHeap bigFS ''/big'' (989 * int SectorSize) = Inr (False, fs')
          \<and> hd (sectors (disk fs') 45) = 31 \<and> hd (sectors (disk bigFS) 45) = 0)
   \<and> (\<exists>fs1 fs2. MakeNewDir zeroHeap 1280 crampedFS ''/d'' = Inr (False, fs1)
          \<and> disk fs1 = disk crampedFS
          \<and> Create zeroHeap fs1 ''/a/g'' 0 = Inr (False, fs2)
          \<and> Directory_Find (dirFiles (disk fs1) 1) ''d'' = -1
          \<and> Directory_Find (dirFiles (disk fs2) 1) ''d'' = 1020)"
  using Create_existing[of zeroHeap 0] Create_too_large_big_disk
    Create_after_refused_MakeNewDir[of zeroHeap]
  by (simp add: sampleFS_fields sampleDisk_fields)

text \<open>
  C6. The claim: after every top-level operation, failed or not, the cursor is back on
  the root directory. \<^verbatim>\<open>Remove\<close> returns at line 550 and \<^verbatim>\<open>MakeNewDir\<close> at lines
  690 and 692 without \<^verbatim>\<open>resetRootDir\<close>: after \<^verbatim>\<open>Remove\<close> of the absent
  \<open>/a/x\<close>, and after \<^verbatim>\<open>MakeNewDir\<close> of the existing \<open>/a/g\<close>, the cursor stands
  on the directory \<open>a\<close> in sector 5.
\<close>

theorem C6_cursor_left_in_subdirectory:
  "currentDirectoryFile sampleFS = DirectorySector
   \<and> (\<exists>fs'. Remove sampleFS ''/a/x'' = Inr (False, fs')
           \<and> currentDirectoryFile fs' = 5 \<and> currentDirectoryFile fs' \<noteq> DirectorySector)
   \<and> (\<exists>fs'. MakeNewDir heap n sampleFS ''/a/g'' = Inr (False, fs')
           \<and> currentDirectoryFile fs' = 5 \<and> currentDirectoryFile fs' \<noteq> DirectorySector)"
proof -
  have "\<exists>fs'. MakeNewDir heap n sampleFS ''/a/g'' = Inr (False, fs')
           \<and> currentDirectoryFile fs' = 5"
    by (simp add: MakeNewDir_def createDir_def splitPath_def change_a Let_def
          Directory_FetchFrom_def Find_a Directory_WriteBack_def sampleDisk_fields sampleFS_fields
          del: changeToRightDir.simps)
  with Remove_missing_leaf show ?thesis
    by (auto simp: DirectorySector_def sampleFS_fields)
qed

text \<open>
  C7. The claim: \<^verbatim>\<open>Remove\<close> fails exactly when the leaf name is not in the parent
  directory. Line 547 looks up \<^verbatim>\<open>name\<close>, the whole path, where \<^verbatim>\<open>Create\<close> and
  \<^verbatim>\<open>Open\<close> look up the leaf: the root directory holds \<open>f\<close>, \<^verbatim>\<open>Open\<close> of
  \<open>/f\<close> finds it, and \<^verbatim>\<open>Remove\<close> of \<open>/f\<close> returns \<^verbatim>\<open>FALSE\<close> and removes
  nothing.
\<close>

theorem C7_Remove_looks_up_whole_path:
  "Directory_Find (currentDirectory sampleFS) ''f'' = 7
   \<and> Open sampleFS ''/f'' = Inr (Some \<lparr>of_sector = 7, of_seekPosition = 0\<rparr>, sampleFS)
   \<and> Remove sampleFS ''/f'' = Inr (False, sampleFS)"
  by (simp add: Remove_def Open_def splitPath_def Let_def Directory_FetchFrom_def resetRootDir_def
        sampleFS_fields sampleDisk_fields Find_root DirectorySector_def)

text \<open>
  C8, as amended. The claim: every recoverable error, an absent intermediate directory
  among them, comes back as a failure result with no change on disk, never as an abort.
  What holds for a path that \<^verbatim>\<open>splitPath\<close> takes apart into at least one piece, when
  the call starts with the directory object in memory equal to the directory file the
  cursor stands on: here \<open>resolved\<close> is the result of \<^verbatim>\<open>changeToRightDir\<close> on
  the pieces but the last, \<open>dir\<close> the directory it ends in, and \<open>sector\<close> and
  \<open>freeMap\<close> the sector \<^verbatim>\<open>Create\<close> claims for the header and the bitmap after the
  claim.

  An absent intermediate directory makes \<^verbatim>\<open>Create\<close>, \<^verbatim>\<open>Open\<close> and
  \<^verbatim>\<open>Remove\<close> fail the assertion on \<^verbatim>\<open>changeToRightDir\<close>. When the path
  resolves, \<^verbatim>\<open>Open\<close> of a leaf that \<open>dir\<close> lacks returns \<^verbatim>\<open>NULL\<close>;
  \<^verbatim>\<open>Remove\<close> returns \<^verbatim>\<open>FALSE\<close> when \<open>dir\<close> has no entry under the name it
  looks up; and \<^verbatim>\<open>Create\<close> returns \<^verbatim>\<open>FALSE\<close> when the leaf exists, when no
  sector is free for the header, when \<open>dir\<close> has no free slot, or when fewer sectors
  are free than the size needs. In each case the operation returns, and the raw sectors,
  the directory files and the bitmap file hold what they held.
\<close>

theorem C8_recoverable_errors:
  assumes "currentDirectory fs = Directory_FetchFrom (disk fs) (currentDirectoryFile fs)"
    and "splitPath name = Inr arr" and "arr \<noteq> []"
    and "resolved = fst (changeToRightDir fs (butlast arr))"
    and "dir = Directory_FetchFrom (disk fs)
                 (currentDirectoryFile (snd (changeToRightDir fs (butlast arr))))"
    and "sector = fst (FindAndSet (mapFile (disk fs)))"
    and "freeMap = snd (FindAndSet (mapFile (disk fs)))"
  shows "(\<not> resolved
          \<longrightarrow> Create heap fs name initialSize = Inl AssertionFailure
              \<and> Open fs name = Inl AssertionFailure
              \<and> Remove fs name = Inl AssertionFailure)
       \<and> (resolved \<and> Directory_Find dir (last arr) = -1
          \<longrightarrow> (\<exists>fs'. Open fs name = Inr (None, fs') \<and> sameContents (disk fs) (disk fs')))
       \<and> (resolved \<and> Directory_Find dir name = -1
          \<longrightarrow> (\<exists>fs'. Remove fs name = Inr (False, fs') \<and> sameContents (disk fs) (disk fs')))
       \<and> (resolved
            \<and> (Directory_Find dir (last arr) \<noteq> -1
               \<or> sector = -1
               \<or> \<not> fst (Directory_Add dir (last arr) sector IS_FILE)
               \<or> int (NumClear freeMap) < divRoundUp initialSize (int SectorSize))
          \<longrightarrow> (\<exists>fs'. Create heap fs name initialSize = Inr (False, fs')
                     \<and> sameContents (disk fs) (disk fs')))"
proof -
  obtain fs1 where ch: "changeToRightDir fs (butlast arr) = (resolved, fs1)"
    using assms(4) by (cases "changeToRightDir fs (butlast arr)") simp
  have clean: "currentDirectory fs = dirFiles (disk fs) (currentDirectoryFile fs)"
    using assms(1) by (simp add: Directory_FetchFrom_def)
  from changeToRightDir_keeps[OF clean ch]
  have keep: "sectors (disk fs1) = sectors (disk fs)" "dirFiles (disk fs1) = dirFiles (disk fs)"
    "mapFile (disk fs1) = mapFile (disk fs)"
    by simp_all
  have same: "sameContents (disk fs) (disk fs')" if "disk fs' = disk fs1" for fs'
    using that keep by (simp add: sameContents_def)
  have dir: "dir = dirFiles (disk fs1) (currentDirectoryFile fs1)"
    using assms(5) ch keep by (simp add: Directory_FetchFrom_def)
  have fas: "FindAndSet (mapFile (disk fs1)) = (sector, freeMap)"
    using assms(6,7) keep(3) by simp
  have a: "Create heap fs name initialSize = Inl AssertionFailure
              \<and> Open fs name = Inl AssertionFailure
              \<and> Remove fs name = Inl AssertionFailure"
    if "\<not> resolved"
    using absent_component_aborts[OF assms(2,3), of fs] that ch by simp
  have b: "\<exists>fs'. Open fs name = Inr (None, fs') \<and> sameContents (disk fs) (disk fs')"
    if "resolved \<and> Directory_Find dir (last arr) = -1"
    using Open_not_found[OF assms(2,3), of fs fs1] that ch dir same by auto
  have c: "\<exists>fs'. Remove fs name = Inr (False, fs') \<and> sameContents (disk fs) (disk fs')"
    if "resolved \<and> Directory_Find dir name = -1"
    using Remove_not_found[OF assms(2,3), of fs fs1] that ch dir same by auto
  have d: "\<exists>fs'. Create heap fs name initialSize = Inr (False, fs')
                     \<and> sameContents (disk fs) (disk fs')"
    if "resolved
            \<and> (Directory_Find dir (last arr) \<noteq> -1
               \<or> sector = -1
               \<or> \<not> fst (Directory_Add dir (last arr) sector IS_FILE)
               \<or> int (NumClear freeMap) < divRoundUp initialSize (int SectorSize))"
  proof -
    from that ch have ch': "changeToRightDir fs (butlast arr) = (True, fs1)" by simp
    from that have cause: "Directory_Find dir (last arr) \<noteq> -1
               \<or> sector = -1
               \<or> \<not> fst (Directory_Add dir (last arr) sector IS_FILE)
               \<or> int (NumClear freeMap) < divRoundUp initialSize (int SectorSize)" by simp
    from Create_refused[OF assms(2,3) ch' dir fas cause, of heap] same show ?thesis by blast
  qed
  from a b c d show ?thesis by blast
qed

text \<open>
  The theorem at work: the path \<open>/zz/f\<close> (no directory \<open>zz\<close>); \<open>/a/nofile\<close>
  and \<open>/a/x\<close> (absent); \<open>/a/g\<close> (exists); a new file on the disk with no free
  sector and in the root directory with no free slot; and the file of 2000 sectors on the
  disk with 1007 free.
\<close>

theorem C8_recoverable_errors_witness:
  "(Create zeroHeap sampleFS ''/zz/f'' 0 = Inl AssertionFailure
      \<and> Open sampleFS ''/zz/f'' = Inl AssertionFailure
      \<and> Remove sampleFS ''/zz/f'' = Inl AssertionFailure)
   \<and> (\<exists>fs'. Open sampleFS ''/a/nofile'' = Inr (None, fs')
          \<and> sameContents (disk sampleFS) (disk fs'))
   \<and> (\<exists>fs'. Remove sampleFS ''/a/x'' = Inr (False, fs')
          \<and> sameContents (disk sampleFS) (disk fs'))
   \<and> (\<exists>fs'. Create zeroHeap sampleFS ''/a/g'' 0 = Inr (False, fs')
          \<and> sameContents (disk sampleFS) (disk fs'))
   \<and> (\<exists>fs'. Create zeroHeap fullFS ''/new'' 0 = Inr (False, fs')
          \<and> sameContents (disk fullFS) (disk fs'))
   \<and> (\<exists>fs'. Create zeroHeap crowdedFS ''/new'' 0 = Inr (False, fs')
          \<and> sameContents (disk crowdedFS) (disk fs'))
   \<and> (\<exists>fs'. Create zeroHeap sampleFS ''/big'' (2000 * int SectorSize) = Inr (False, fs')
          \<and> sameContents (disk sampleFS) (disk fs'))"
proof -
  have f: "FindAndSet (mapFile (disk sampleFS)) = (16, replicate 17 True @ replicate 1007 False)"
    using FindAndSet_prefix'[of 1008 16] by (simp add: sampleFS_fields sampleDisk_fields)
  have p1: "Create zeroHeap sampleFS ''/zz/f'' 0 = Inl AssertionFailure
      \<and> Open sampleFS ''/zz/f'' = Inl AssertionFailure
      \<and> Remove sampleFS ''/zz/f'' = Inl AssertionFailure"
    using C8_recoverable_errors[OF sampleFS_clean sample_paths(1) _ refl refl refl refl,
            of zeroHeap 0]
    by (simp add: change_zz del: changeToRightDir.simps)
  have p2: "\<exists>fs'. Open sampleFS ''/a/nofile'' = Inr (None, fs')
          \<and> sameContents (disk sampleFS) (disk fs')"
    using C8_recoverable_errors[OF sampleFS_clean sample_paths(2) _ refl refl refl refl]
    by (simp add: change_a Directory_FetchFrom_def sampleFS_fields sampleDisk_fields Find_a
          del: changeToRightDir.simps)
  have p3: "\<exists>fs'. Remove sampleFS ''/a/x'' = Inr (False, fs')
          \<and> sameContents (disk sampleFS) (disk fs')"
    using C8_recoverable_errors[OF sampleFS_clean sample_paths(3) _ refl refl refl refl]
    by (simp add: change_a Directory_FetchFrom_def sampleFS_fields sampleDisk_fields Find_a
          del: changeToRightDir.simps)
  have p4: "\<exists>fs'. Create zeroHeap sampleFS ''/a/g'' 0 = Inr (False, fs')
          \<and> sameContents (disk sampleFS) (disk fs')"
    using C8_recoverable_errors[OF sampleFS_clean sample_paths(4) _ refl refl refl refl,
            of zeroHeap 0]
    by (simp add: change_a Directory_FetchFrom_def sampleFS_fields sampleDisk_fields Find_a
          del: changeToRightDir.simps)
  have p5: "\<exists>fs'. Create zeroHeap fullFS ''/new'' 0 = Inr (False, fs')
          \<and> sameContents (disk fullFS) (disk fs')"
    using C8_recoverable_errors[OF fullFS_fields(1) sample_paths(5) _ refl refl refl refl,
            of zeroHeap 0]
    by (simp add: fullFS_fields(4) FindAndSet_none)
  have p6: "\<exists>fs'. Create zeroHeap crowdedFS ''/new'' 0 = Inr (False, fs')
          \<and> sameContents (disk crowdedFS) (disk fs')"
    using C8_recoverable_errors[OF crowdedFS_fields(1) sample_paths(5) _ refl refl refl refl,
            of zeroHeap 0]
    by (simp add: crowdedFS_fields(2-) Directory_FetchFrom_def Directory_Add_def
          fullDirectory_slots)
  have short: "int (NumClear (replicate 17 True @ replicate 1007 False))
                 < divRoundUp (2000 * int SectorSize) (int SectorSize)"
    by (simp add: NumClear_prefix divRoundUp_def cquot_def crem_def layout)
  have p7: "\<exists>fs'. Create zeroHeap sampleFS ''/big'' (2000 * int SectorSize) = Inr (False, fs')
          \<and> sameContents (disk sampleFS) (disk fs')"
    using C8_recoverable_errors[OF sampleFS_clean sample_paths(6) _ refl refl refl refl,
            of zeroHeap "2000 * int SectorSize"] short
    by (simp add: f)
  from p1 p2 p3 p4 p5 p6 p7 show ?thesis by blast
qed

text \<open>
  C8 as stated fails. The root directory has no entry \<open>zz\<close>, and the three
  operations abort on the path \<open>/zz/f\<close>. A file of 989 sectors is too large for the
  header: on the disk of 1024 sectors \<^verbatim>\<open>Create\<close> aborts, and on the disk of 2048
  sectors it returns \<^verbatim>\<open>FALSE\<close> after sector 45 was written. And after a refused
  \<^verbatim>\<open>MakeNewDir\<close> of \<open>/d\<close>, which has changed nothing on the disk, \<^verbatim>\<open>Open\<close>
  of the absent \<open>/a/nofile\<close> returns \<^verbatim>\<open>NULL\<close> and leaves the entry \<open>d\<close> in
  the root directory on disk.
\<close>

theorem C8_absent_directory_aborts_counterexample:
  "(Directory_Find (currentDirectory sampleFS) ''zz'' = -1
      \<and> Create zeroHeap sampleFS ''/zz/f'' 0 = Inl AssertionFailure
      \<and> Open sampleFS ''/zz/f'' = Inl AssertionFailure
      \<and> Remove sampleFS ''/zz/f'' = Inl AssertionFailure)
   \<and> Create zeroHeap sampleFS ''/big'' (989 * int SectorSize) = Inl AssertionFailure
   \<and> (\<exists>fs'. Create zeroHeap bigFS ''/big'' (989 * int SectorSize) = Inr (False, fs')
          \<and> hd (sectors (disk fs') 45) = 31 \<and> hd (sectors (disk bigFS) 45) = 0)
   \<and> (\<exists>fs1 fs2. MakeNewDir zeroHeap 1280 crampedFS ''/d'' = Inr (False, fs1)
          \<and> disk fs1 = disk crampedFS
          \<and> Open fs1 ''/a/nofile'' = Inr (None, fs2)
          \<and> Directory_Find (dirFiles (disk fs1) 1) ''d'' = -1
          \<and> Directory_Find (dirFiles (disk fs2) 1) ''d'' = 1020)"
proof -
  have "Directory_Find (currentDirectory sampleFS) ''zz'' = -1
      \<and> Create zeroHeap sampleFS ''/zz/f'' 0 = Inl AssertionFailure
      \<and> Open sampleFS ''/zz/f'' = Inl AssertionFailure
      \<and> Remove sampleFS ''/zz/f'' = Inl AssertionFailure"
    by (simp add: Create_def Open_def Remove_def splitPath_def change_zz sampleFS_fields Find_root
          del: changeToRightDir.simps)
  with Open_after_refused_MakeNewDir Create_too_large_stock_disk Create_too_large_big_disk
  show ?thesis by blast
qed

text \<open>
  C9. The claim: \<^verbatim>\<open>OpenAFile\<close> returns \<open>-1\<close> when the path names no file. The
  function never tests the result of \<^verbatim>\<open>Open\<close>: for the absent \<open>/nofile\<close> it
  returns the first value of \<^verbatim>\<open>rand()\<close> that is not in the table and stores the null
  pointer under it, which a later \<^verbatim>\<open>WriteAFile\<close> dereferences.
\<close>

theorem C9_OpenAFile_missing_file_gets_identifier:
  "Open sampleFS ''/nofile'' = Inr (None, sampleFS)
   \<and> OpenAFile (r # rands) sampleFS ''/nofile''
       = Some (Inr (r, sampleFS\<lparr>openedTable := (openedTable sampleFS)(r \<mapsto> None)\<rparr>))
   \<and> OpenAFile [41] sampleFS ''/nofile''
       \<noteq> Some (Inr (-1, sampleFS))
   \<and> WriteAFile fileWrite (sampleFS\<lparr>openedTable := (openedTable sampleFS)(r \<mapsto> None)\<rparr>)
         buffer nbytes r = Inl NullPointer"
  by (simp add: OpenAFile_def Open_missing_leaf sampleFS_fields WriteAFile_def)

text \<open>
  C10. For an identifier that is not in the table, \<^verbatim>\<open>ReadAFile\<close> and
  \<^verbatim>\<open>WriteAFile\<close> return 0 without calling the file's read or write and leave the
  state as it is, and \<^verbatim>\<open>CloseAFile\<close> returns 0 and leaves the table as it is. For an
  identifier in the table, \<^verbatim>\<open>CloseAFile\<close> returns 1 and erases it, so that a second
  \<^verbatim>\<open>CloseAFile\<close> returns 0.
\<close>

theorem C10_unknown_identifier:
  "(openedTable fs fd = None
      \<longrightarrow> ReadAFile fileRead fs buffer nbytes fd = Inr (0, buffer, fs)
          \<and> WriteAFile fileWrite fs buffer nbytes fd = Inr (0, fs)
          \<and> CloseAFile fs fd = (0, fs))
   \<and> (openedTable fs fd \<noteq> None
      \<longrightarrow> CloseAFile fs fd = (1, fs\<lparr>openedTable := (openedTable fs)(fd := None)\<rparr>)
          \<and> openedTable (snd (CloseAFile fs fd)) fd = None
          \<and> CloseAFile (snd (CloseAFile fs fd)) fd = (0, snd (CloseAFile fs fd)))"
  by (auto simp: ReadAFile_def WriteAFile_def CloseAFile_def)

text \<open>
  The theorem at work on the identifier 7, absent from the empty table and present in a
  table of one file.
\<close>

theorem C10_unknown_identifier_witness:
  "(ReadAFile (\<lambda>file d buf n. (n, file, buf)) sampleFS ''abc'' 3 7 = Inr (0, ''abc'', sampleFS)
      \<and> WriteAFile (\<lambda>file d buf n. (n, file, d)) sampleFS ''abc'' 3 7 = Inr (0, sampleFS)
      \<and> CloseAFile sampleFS 7 = (0, sampleFS))
   \<and> (CloseAFile (sampleFS\<lparr>openedTable := [7 \<mapsto> Some \<lparr>of_sector = 9, of_seekPosition = 0\<rparr>]\<rparr>) 7
        = (1, sampleFS\<lparr>openedTable := Map.empty\<rparr>)
      \<and> CloseAFile (sampleFS\<lparr>openedTable := Map.empty\<rparr>) 7
        = (0, sampleFS\<lparr>openedTable := Map.empty\<rparr>))"
  using C10_unknown_identifier[of sampleFS 7 "\<lambda>file d buf n. (n, file, buf)" "''abc''" 3
          "\<lambda>file d buf n. (n, file, d)"]
    C10_unknown_identifier[of "sampleFS\<lparr>openedTable := [7 \<mapsto> Some \<lparr>of_sector = 9, of_seekPosition = 0\<rparr>]\<rparr>" 7]
  by (simp add: sampleFS_fields CloseAFile_def)

end
